theory Spec2Isabelle
  imports Main
begin

section \<open>ExaZK: a shallow embedding of exazk.py\<close>

text \<open>
  The program is one Python module. Its classes become records and functions that pass
  the state explicitly; every function returns, besides its result, the list of effects
  it performed on the outside world, in program order: lines printed to stdout, flushes,
  log records, calls to the ZooKeeper client and the system calls of the health probe.
  A raised exception is the \<open>Inl\<close> branch of a sum; the effects performed before the
  raise are kept.

  What the outside world answers is an input of the model: the result of the probe's
  child process, and what \<open>zk.create\<close> and \<open>zk.get_children\<close> return or raise.
  The session listener, the child watch and the signal handler run on other threads in
  the program; the model runs each of them as one atomic event between loop iterations.
\<close>

subsection \<open>Values, exceptions, effects\<close>

text \<open>The values that occur in a route dictionary: strings and integers.\<close>

datatype pyval = PyStr string | PyInt int

text \<open>
  \<open>Alarm\<close> is the module's own exception (line 18), \<open>SessionExpiredError\<close> the one
  imported from kazoo (line 12), \<open>ZkError name\<close> any other exception of the client
  library, \<open>PyException msg\<close> a plain \<open>Exception(msg)\<close>, \<open>KeyError k\<close> a failed
  dictionary lookup, \<open>UnboundLocalError v\<close> the read of the local variable \<open>v\<close> before
  its assignment, and \<open>OSError\<close> a system call that failed.
\<close>

datatype exn =
    Alarm
  | SessionExpiredError
  | ZkError string
  | PyException string
  | KeyError string
  | UnboundLocalError string
  | OSError

datatype level = DEBUG | INFO | WARN | ERROR

datatype signum = SIGALRM | SIGKILL

datatype disposition = Alarm_signal_handler | SIG_IGN

text \<open>
  The arguments of the \<open>subprocess.Popen\<close> call (lines 33-35): the command, run by the
  shell, both output streams sent to \<open>/dev/null\<close>, the other descriptors closed, and
  \<open>preexec_fn=os.setpgrp\<close>, which makes the child the leader of a new process group
  (the id of that group is the pid of the child).
\<close>

record popen_args =
  popen_command :: string
  popen_shell :: bool
  popen_stdout_devnull :: bool
  popen_stderr_devnull :: bool
  popen_close_fds :: bool
  popen_setpgrp :: bool

datatype effect =
    Print string
  | Flush
  | Log level string
  | ZkCreate string bool
  | ZkGetChildren string
  | Signal signum disposition
  | SetAlarm nat
  | Popen popen_args
  | Killpg nat signum

type_synonym 'a result = "(exn + 'a) \<times> effect list"

subsection \<open>The \<open>%s\<close> conversion\<close>

definition digit_char :: "nat \<Rightarrow> char" where
  "digit_char d = ''0123456789'' ! d"

function str_nat :: "nat \<Rightarrow> string" where
  "str_nat n = (if n < 10 then [digit_char n] else str_nat (n div 10) @ [digit_char (n mod 10)])"
  by pat_completeness auto
termination
  by (relation "measure (\<lambda>n. n)") auto

declare str_nat.simps [simp del]

definition str_int :: "int \<Rightarrow> string" where
  "str_int i = (if i < 0 then CHR ''-'' # str_nat (nat (- i)) else str_nat (nat i))"

text \<open>\<open>'%s' % v\<close>: a string is inserted as it is, an integer in decimal.\<close>

fun fmt :: "pyval \<Rightarrow> string" where
  "fmt (PyStr s) = s"
| "fmt (PyInt i) = str_int i"

subsection \<open>Routes and the route table (lines 50-61)\<close>

text \<open>A route is the keyword dictionary \<open>**route\<close>.\<close>

type_synonym route = "string \<rightharpoonup> pyval"

text \<open>The dictionary built by a call \<open>f(prefix=p, dst=d, metric=m)\<close>.\<close>

definition route_kw :: "pyval \<Rightarrow> pyval \<Rightarrow> pyval \<Rightarrow> route" where
  "route_kw p d m = [''prefix'' \<mapsto> p, ''dst'' \<mapsto> d, ''metric'' \<mapsto> m]"

record BGPTable =
  announce :: "route list"

definition BGPTable_init :: BGPTable where
  "BGPTable_init = \<lparr>announce = []\<rparr>"

definition mandatory_missing :: "route \<Rightarrow> bool" where
  "mandatory_missing r \<longleftrightarrow> r ''prefix'' = None \<or> r ''dst'' = None \<or> r ''metric'' = None"

definition mandatory_msg :: string where
  "mandatory_msg = ''prefix, dst & metric are mandatory in route''"

definition add_route :: "route \<Rightarrow> BGPTable \<Rightarrow> BGPTable result" where
  "add_route r t =
     (if mandatory_missing r then (Inl (PyException mandatory_msg), [])
      else (Inr (t\<lparr>announce := announce t @ [r]\<rparr>),
            [Log DEBUG (''adding BGP route: '' @ fmt (the (r ''prefix'')))]))"

definition get_routes :: "BGPTable \<Rightarrow> route list" where
  "get_routes t = announce t"

subsection \<open>The speaker (lines 63-85)\<close>

record BGPSpeaker =
  table :: BGPTable

definition BGPSpeaker_init :: "BGPTable \<Rightarrow> BGPSpeaker" where
  "BGPSpeaker_init t = \<lparr>table = t\<rparr>"

definition announce_line :: "pyval \<Rightarrow> pyval \<Rightarrow> string" where
  "announce_line p m = ''announce route '' @ fmt p @ ''/32 next-hop self med '' @ fmt m"

definition withdraw_line :: "pyval \<Rightarrow> pyval \<Rightarrow> string" where
  "withdraw_line p m = ''withdraw route '' @ fmt p @ ''/32 next-hop self med '' @ fmt m"

text \<open>
  The body of the \<open>for\<close> loop of \<open>advertise_routes\<close>: \<open>route['prefix']\<close> and
  \<open>route['metric']\<close> raise \<open>KeyError\<close> on a dictionary without the key.
\<close>

fun advertise_loop :: "route list \<Rightarrow> unit result" where
  "advertise_loop [] = (Inr (), [])"
| "advertise_loop (r # rs) =
     (case r ''prefix'' of
        None \<Rightarrow> (Inl (KeyError ''prefix''), [])
      | Some p \<Rightarrow>
          (case r ''metric'' of
             None \<Rightarrow> (Inl (KeyError ''metric''), [])
           | Some m \<Rightarrow>
               (case advertise_loop rs of (res, tr) \<Rightarrow> (res, Print (announce_line p m) # tr))))"

definition advertise_routes :: "BGPSpeaker \<Rightarrow> unit result" where
  "advertise_routes sp =
     (case advertise_loop (get_routes (table sp)) of
        (Inl x, tr) \<Rightarrow> (Inl x, Log INFO ''advertising routes'' # tr)
      | (Inr u, tr) \<Rightarrow> (Inr u, Log INFO ''advertising routes'' # tr @ [Flush]))"

definition withdraw_route :: "BGPSpeaker \<Rightarrow> route \<Rightarrow> unit result" where
  "withdraw_route sp r =
     (if mandatory_missing r then (Inl (PyException mandatory_msg), [])
      else (Inr (),
            [Log DEBUG (''removing BGP route: '' @ fmt (the (r ''prefix''))),
             Print (withdraw_line (the (r ''prefix'')) (the (r ''metric''))),
             Flush]))"

subsection \<open>The health probe (lines 23-48)\<close>

text \<open>
  The outside world of one call of \<open>check\<close>: what the child process does, and where the
  SIGALRM armed by \<open>signal.alarm(1)\<close> (line 30) is delivered, if it is. The handler raises
  \<open>Alarm\<close> at the point of delivery, and the \<open>except\<close> branch (lines 44-46) runs from
  there.
  \<^item> \<open>Exited rc\<close>: \<open>p.wait()\<close> returns \<open>rc\<close> and line 38 sets the signal to be ignored
    before any alarm is delivered.
  \<^item> \<open>TimedOut\<close>: the alarm is delivered once \<open>p\<close> is bound and before \<open>p.wait()\<close> has
    returned; the child is still there.
  \<^item> \<open>AlarmBeforeBound entered\<close>: the alarm is delivered before line 33 has bound \<open>p\<close>,
    while \<open>/dev/null\<close> is opened (\<open>entered\<close> false) or inside the \<open>Popen\<close> call
    (\<open>entered\<close> true). The \<open>except\<close> branch then reads \<open>p.pid\<close> with \<open>p\<close> unbound.
  \<^item> \<open>AlarmAfterWait rc alive\<close>: the alarm is delivered after \<open>p.wait()\<close> has returned
    \<open>rc\<close> and before line 38 has run; \<open>alive\<close> tells whether the process group of the
    child still has a member, that is whether \<open>os.killpg\<close> finds it or fails.
\<close>

datatype proc_result =
    Exited int
  | TimedOut
  | AlarmBeforeBound bool
  | AlarmAfterWait int bool

definition check :: "string \<Rightarrow> nat \<Rightarrow> proc_result \<Rightarrow> bool result" where
  "check command pid pr =
     (let arm = [Signal SIGALRM Alarm_signal_handler, SetAlarm 1];
          spawn = Popen \<lparr>popen_command = command, popen_shell = True,
                         popen_stdout_devnull = True, popen_stderr_devnull = True,
                         popen_close_fds = True, popen_setpgrp = True\<rparr>;
          late = Log ERROR ''local check spent more than 1s to run''
      in case pr of
        Exited rc \<Rightarrow>
          if rc = 0 then (Inr True, arm @ [spawn, Signal SIGALRM SIG_IGN])
          else (Inr False, arm @ [spawn, Signal SIGALRM SIG_IGN,
                                  Log ERROR (''local check returned: '' @ fmt (PyInt rc))])
      | TimedOut \<Rightarrow> (Inr False, arm @ [spawn, late, Killpg pid SIGKILL])
      | AlarmBeforeBound entered \<Rightarrow>
          (Inl (UnboundLocalError ''p''), arm @ (if entered then [spawn] else []) @ [late])
      | AlarmAfterWait rc alive \<Rightarrow>
          (if alive then Inr False else Inl OSError, arm @ [spawn, late, Killpg pid SIGKILL]))"

subsection \<open>Configuration and runtime (lines 93-169)\<close>

record conf =
  zk_hosts :: "string list"
  zk_path_service :: string
  srv_name :: string
  srv_auth_ip :: string
  srv_non_auth_ips :: "string list"
  local_check :: string

record runtime =
  bgp_table :: BGPTable
  refresh :: bool
  recreate :: bool
  shouldstop :: bool

definition EZKRuntime_init :: runtime where
  "EZKRuntime_init =
     \<lparr>bgp_table = BGPTable_init, refresh = True, recreate = True, shouldstop = False\<rparr>"

type_synonym 'a rresult = "(exn + 'a) \<times> runtime \<times> effect list"

datatype 'a zk_result = Returns 'a | Raises exn

text \<open>The two paths the program formats with \<open>'%s/%s' %\<close> and \<open>'%s/%s/%s' %\<close>.\<close>

definition service_dir :: "conf \<Rightarrow> string" where
  "service_dir c = zk_path_service c @ ''/'' @ srv_name c"

definition node_path :: "conf \<Rightarrow> string" where
  "node_path c = zk_path_service c @ ''/'' @ srv_name c @ ''/'' @ srv_auth_ip c"

definition create_node :: "conf \<Rightarrow> string zk_result \<Rightarrow> runtime \<Rightarrow> unit rresult" where
  "create_node c created rt =
     (let rt1 = rt\<lparr>recreate := False\<rparr>;
          tr = [Log INFO ''re-creating my ephemeral node'', ZkCreate (node_path c) True]
      in case created of
           Returns p \<Rightarrow> (Inr (), rt1, tr)
         | Raises x \<Rightarrow>
             if x = SessionExpiredError then (Inr (), rt1\<lparr>recreate := True\<rparr>, tr)
             else (Inl x, rt1, tr))"

text \<open>
  The loop of \<open>refresh_children\<close> over \<open>srv_non_auth_ips\<close> (lines 155-159): it fills the
  local table and prints the withdraws through a speaker made for each of them.
\<close>

fun refresh_loop :: "string list \<Rightarrow> string list \<Rightarrow> BGPTable \<Rightarrow> BGPTable result" where
  "refresh_loop [] children t = (Inr t, [])"
| "refresh_loop (ip # ips) children t =
     (if ip \<notin> set children then
        (case add_route (route_kw (PyStr ip) (PyStr ''1.1.1.1'') (PyInt 200)) t of
           (Inl x, tr) \<Rightarrow> (Inl x, tr)
         | (Inr t', tr) \<Rightarrow>
             (case refresh_loop ips children t' of (res, tr') \<Rightarrow> (res, tr @ tr')))
      else
        (case withdraw_route (BGPSpeaker_init BGPTable_init)
                (route_kw (PyStr ip) (PyStr ''1.1.1.1'') (PyInt 200)) of
           (Inl x, tr) \<Rightarrow> (Inl x, tr)
         | (Inr u, tr) \<Rightarrow>
             (case refresh_loop ips children t of (res, tr') \<Rightarrow> (res, tr @ tr'))))"

definition set_bgp_table :: "BGPTable \<Rightarrow> runtime \<Rightarrow> runtime" where
  "set_bgp_table t rt = rt\<lparr>bgp_table := t\<rparr>"

definition get_bgp_table :: "runtime \<Rightarrow> BGPTable" where
  "get_bgp_table rt = bgp_table rt"

definition refresh_children :: "conf \<Rightarrow> string list zk_result \<Rightarrow> runtime \<Rightarrow> unit rresult" where
  "refresh_children c listed rt =
     (let rt1 = rt\<lparr>refresh := False\<rparr>;
          tr0 = [Log INFO ''refreshing children & routes'', ZkGetChildren (service_dir c)]
      in case listed of
           Raises x \<Rightarrow> (Inl x, rt1, tr0)
         | Returns children \<Rightarrow>
             (case refresh_loop (srv_non_auth_ips c) children BGPTable_init of
                (Inl x, tr1) \<Rightarrow> (Inl x, rt1, tr0 @ tr1)
              | (Inr t, tr1) \<Rightarrow>
                  (case add_route (route_kw (PyStr (srv_auth_ip c)) (PyStr ''1.1.1.1'') (PyInt 100)) t of
                     (Inl x, tr2) \<Rightarrow> (Inl x, rt1, tr0 @ tr1 @ tr2)
                   | (Inr t', tr2) \<Rightarrow> (Inr (), set_bgp_table t' rt1, tr0 @ tr1 @ tr2))))"

definition trigger_refresh :: "runtime \<Rightarrow> runtime" where
  "trigger_refresh rt = rt\<lparr>refresh := True\<rparr>"

definition trigger_recreate :: "runtime \<Rightarrow> runtime" where
  "trigger_recreate rt = rt\<lparr>recreate := True\<rparr>"

subsection \<open>Handlers (lines 171-225)\<close>

datatype kazoo_state = INIT | CONNECTED | SUSPENDED | LOST

fun state_name :: "kazoo_state \<Rightarrow> string" where
  "state_name INIT = ''INIT''"
| "state_name CONNECTED = ''CONNECTED''"
| "state_name SUSPENDED = ''SUSPENDED''"
| "state_name LOST = ''LOST''"

definition exit_signal_handler :: "nat \<Rightarrow> runtime \<Rightarrow> runtime \<times> effect list" where
  "exit_signal_handler sig rt =
     (rt\<lparr>shouldstop := True\<rparr>,
      [Log INFO (''received signal '' @ fmt (PyInt (int sig)) @ '', preparing to stop'')])"

text \<open>The \<open>for\<close> loop of the SUSPENDED branch (lines 195-196).\<close>

fun withdraw_loop :: "BGPSpeaker \<Rightarrow> string list \<Rightarrow> unit result" where
  "withdraw_loop sp [] = (Inr (), [])"
| "withdraw_loop sp (ip # ips) =
     (case withdraw_route sp (route_kw (PyStr ip) (PyStr ''1.1.1.1'') (PyInt 200)) of
        (Inl x, tr) \<Rightarrow> (Inl x, tr)
      | (Inr u, tr) \<Rightarrow> (case withdraw_loop sp ips of (res, tr') \<Rightarrow> (res, tr @ tr')))"

definition suspended_branch :: "conf \<Rightarrow> runtime \<Rightarrow> unit rresult" where
  "suspended_branch c rt =
     (let tr0 = [Log ERROR ''zk disconnected, flushing routes...''];
          rt1 = set_bgp_table BGPTable_init rt;
          bgp_speaker = BGPSpeaker_init BGPTable_init
      in case withdraw_loop bgp_speaker (srv_non_auth_ips c) of
           (Inl x, tr1) \<Rightarrow> (Inl x, rt1, tr0 @ tr1)
         | (Inr u, tr1) \<Rightarrow>
             (case withdraw_route bgp_speaker
                     (route_kw (PyStr (srv_auth_ip c)) (PyStr ''1.1.1.1'') (PyInt 100)) of
                (res, tr2) \<Rightarrow> (res, rt1, tr0 @ tr1 @ tr2)))"

definition zk_transition :: "conf \<Rightarrow> kazoo_state \<Rightarrow> runtime \<Rightarrow> unit rresult" where
  "zk_transition c st rt =
     (let tr0 = [Log INFO (''zk state changed to '' @ state_name st)] in
      case (if st = SUSPENDED then suspended_branch c rt else (Inr (), rt, [])) of
        (Inl x, rt1, tr1) \<Rightarrow> (Inl x, rt1, tr0 @ tr1)
      | (Inr u, rt1, tr1) \<Rightarrow>
          (let (rt2, tr2) =
                 (if st = LOST
                  then (trigger_recreate rt1,
                        [Log ERROR ''zk lost, have to re-create ephemeral node''])
                  else (rt1, []));
               rt3 = (if st = CONNECTED then trigger_refresh rt2 else rt2)
           in (Inr (), rt3, tr0 @ tr1 @ tr2)))"

text \<open>
  \<open>'%s' % children\<close> for a list of names: the names between single quotes, separated
  by a comma and a space, between brackets. This is what Python 3 writes for names
  without quote, backslash or non-printable character, as the names of the children
  are (addresses); Python 2 writes the letter \<open>u\<close> before each quoted name.
\<close>

definition repr_name :: "string \<Rightarrow> string" where
  "repr_name s = CHR 0x27 # s @ [CHR 0x27]"

fun join_names :: "string list \<Rightarrow> string" where
  "join_names [] = []"
| "join_names [x] = repr_name x"
| "join_names (x # y # ys) = repr_name x @ '', '' @ join_names (y # ys)"

definition str_list :: "string list \<Rightarrow> string" where
  "str_list xs = ''['' @ join_names xs @ '']''"

text \<open>The child watch (lines 220-225).\<close>

definition zk_watch :: "string list \<Rightarrow> runtime \<Rightarrow> runtime \<times> effect list" where
  "zk_watch children rt =
     (trigger_refresh rt, [Log DEBUG (''zk children are '' @ str_list children)])"

subsection \<open>The control loop (lines 227-249)\<close>

text \<open>
  One pass through the body of \<open>while not runtime.shouldstop\<close>, from the point where the
  inner wait (lines 229-235) has ended; the wait only sleeps and reads the clock and the
  flags. \<open>Stopped\<close> is the \<open>break\<close>, \<open>Skipped\<close> the \<open>continue\<close> after a failed probe,
  \<open>Advertised\<close> the end of the body. Nothing in the loop catches an exception: one
  raised by the probe, by the ZooKeeper calls or by the emission leaves the iteration.
\<close>

record env =
  probe_pid :: nat
  probe :: proc_result
  created :: "string zk_result"
  listed :: "string list zk_result"

datatype ctl = Stopped | Skipped | Advertised

definition iteration :: "conf \<Rightarrow> env \<Rightarrow> runtime \<Rightarrow> ctl rresult" where
  "iteration c e rt =
     (if shouldstop rt then (Inr Stopped, rt, [])
      else
        (case check (local_check c) (probe_pid e) (probe e) of
           (Inl x, tr0) \<Rightarrow> (Inl x, rt, tr0)
         | (Inr healthy, tr0) \<Rightarrow>
             if \<not> healthy then (Inr Skipped, rt, tr0)
             else
               (case (if recreate rt then create_node c (created e) rt else (Inr (), rt, [])) of
                  (Inl x, rt1, tr1) \<Rightarrow> (Inl x, rt1, tr0 @ tr1)
                | (Inr u, rt1, tr1) \<Rightarrow>
                    (case (if refresh rt1 then refresh_children c (listed e) rt1
                           else (Inr (), rt1, [])) of
                       (Inl x, rt2, tr2) \<Rightarrow> (Inl x, rt2, tr0 @ tr1 @ tr2)
                     | (Inr u', rt2, tr2) \<Rightarrow>
                         (case advertise_routes (BGPSpeaker_init (get_bgp_table rt2)) of
                            (Inl x, tr3) \<Rightarrow> (Inl x, rt2, tr0 @ tr1 @ tr2 @ tr3)
                          | (Inr u'', tr3) \<Rightarrow>
                              (Inr Advertised, rt2, tr0 @ tr1 @ tr2 @ tr3))))))"

text \<open>What a list of effects writes to stdout: the printed lines, in order.\<close>

fun stdout :: "effect list \<Rightarrow> string list" where
  "stdout [] = []"
| "stdout (Print l # tr) = l # stdout tr"
| "stdout (x # tr) = stdout tr"

subsection \<open>The program as a sequence of events\<close>

text \<open>
  What happens to the runtime after its construction: the session listener is called with
  a state, the child watch is called with the children, a signal sets \<open>shouldstop\<close>, or the
  control loop runs one iteration. \<open>run\<close> plays a list of such events in order and stops
  at the first exception.
\<close>

datatype event =
    Transition kazoo_state
  | ChildrenWatch "string list"
  | ExitSignal nat
  | Iteration env

fun step :: "conf \<Rightarrow> event \<Rightarrow> runtime \<Rightarrow> unit rresult" where
  "step c (Transition st) rt = zk_transition c st rt"
| "step c (ChildrenWatch children) rt =
     (case zk_watch children rt of (rt', tr) \<Rightarrow> (Inr (), rt', tr))"
| "step c (ExitSignal sig) rt =
     (case exit_signal_handler sig rt of (rt', tr) \<Rightarrow> (Inr (), rt', tr))"
| "step c (Iteration e) rt =
     (case iteration c e rt of
        (Inl x, rt', tr) \<Rightarrow> (Inl x, rt', tr)
      | (Inr k, rt', tr) \<Rightarrow> (Inr (), rt', tr))"

fun run :: "conf \<Rightarrow> event list \<Rightarrow> runtime \<Rightarrow> unit rresult" where
  "run c [] rt = (Inr (), rt, [])"
| "run c (ev # evs) rt =
     (case step c ev rt of
        (Inl x, rt', tr) \<Rightarrow> (Inl x, rt', tr)
      | (Inr u, rt', tr) \<Rightarrow>
          (case run c evs rt' of (res, rt'', tr') \<Rightarrow> (res, rt'', tr @ tr')))"

text \<open>An event that is not an iteration, or an iteration whose probe returns false.\<close>

fun probe_fails :: "conf \<Rightarrow> event \<Rightarrow> bool" where
  "probe_fails c (Iteration e) =
     (fst (check (local_check c) (probe_pid e) (probe e)) = Inr False)"
| "probe_fails c ev = True"

subsection \<open>Reference values for the statements\<close>

definition route200 :: "string \<Rightarrow> route" where
  "route200 ip = route_kw (PyStr ip) (PyStr ''1.1.1.1'') (PyInt 200)"

definition refresh_effects :: "string list \<Rightarrow> string \<Rightarrow> effect list" where
  "refresh_effects children ip =
     (if ip \<notin> set children then [Log DEBUG (''adding BGP route: '' @ ip)]
      else [Log DEBUG (''removing BGP route: '' @ ip),
            Print (''withdraw route '' @ ip @ ''/32 next-hop self med 200''), Flush])"

definition route100 :: "string \<Rightarrow> route" where
  "route100 ip = route_kw (PyStr ip) (PyStr ''1.1.1.1'') (PyInt 100)"

definition reconciled :: "conf \<Rightarrow> string list \<Rightarrow> route list" where
  "reconciled c children =
     map route200 (filter (\<lambda>ip. ip \<notin> set children) (srv_non_auth_ips c)) @ [route100 (srv_auth_ip c)]"

definition announce_lines :: "conf \<Rightarrow> string list \<Rightarrow> string list" where
  "announce_lines c children =
     map (\<lambda>ip. ''announce route '' @ ip @ ''/32 next-hop self med 200'')
         (filter (\<lambda>ip. ip \<notin> set children) (srv_non_auth_ips c))
     @ [''announce route '' @ srv_auth_ip c @ ''/32 next-hop self med 100'']"

definition after_create :: "env \<Rightarrow> runtime \<Rightarrow> runtime" where
  "after_create e rt =
     (if recreate rt then rt\<lparr>recreate := (created e = Raises SessionExpiredError)\<rparr> else rt)"

definition create_fatal :: "env \<Rightarrow> bool" where
  "create_fatal e \<longleftrightarrow> (\<exists>x. created e = Raises x \<and> x \<noteq> SessionExpiredError)"

definition create_effects :: "conf \<Rightarrow> runtime \<Rightarrow> effect list" where
  "create_effects c rt =
     (if recreate rt
      then [Log INFO ''re-creating my ephemeral node'', ZkCreate (node_path c) True] else [])"

definition probe_ok_effects :: "conf \<Rightarrow> effect list" where
  "probe_ok_effects c =
     [Signal SIGALRM Alarm_signal_handler, SetAlarm 1,
      Popen \<lparr>popen_command = local_check c, popen_shell = True,
             popen_stdout_devnull = True, popen_stderr_devnull = True,
             popen_close_fds = True, popen_setpgrp = True\<rparr>,
      Signal SIGALRM SIG_IGN]"

definition refresh_trace :: "conf \<Rightarrow> string list \<Rightarrow> effect list" where
  "refresh_trace c children =
     [Log INFO ''refreshing children & routes'', ZkGetChildren (service_dir c)]
     @ concat (map (refresh_effects children) (srv_non_auth_ips c))
     @ [Log DEBUG (''adding BGP route: '' @ srv_auth_ip c)]"

definition withdraw_lines :: "conf \<Rightarrow> string list \<Rightarrow> string list" where
  "withdraw_lines c children =
     map (\<lambda>ip. ''withdraw route '' @ ip @ ''/32 next-hop self med 200'')
         (filter (\<lambda>ip. ip \<in> set children) (srv_non_auth_ips c))"

text \<open>The withdraw lines an iteration prints in its refresh, if it finds \<open>refresh\<close> set and
  reads the children.\<close>

definition refresh_withdraws :: "conf \<Rightarrow> env \<Rightarrow> runtime \<Rightarrow> string list" where
  "refresh_withdraws c e rt =
     (case listed e of
        Returns children \<Rightarrow>
          if refresh rt
          then map (\<lambda>ip. ''withdraw route '' @ ip @ ''/32 next-hop self med 200'')
                   (filter (\<lambda>ip. ip \<in> set children) (srv_non_auth_ips c))
          else []
      | Raises x \<Rightarrow> [])"

text \<open>
  A configuration and an environment to run the theorems on: the node \<open>10.0.0.1\<close> with two
  shared addresses, a probe that passes, and a service directory in which a peer owns
  \<open>10.0.0.2\<close>.
\<close>

definition conf_ex :: conf where
  "conf_ex =
     \<lparr>zk_hosts = [''zk1:2181''], zk_path_service = ''/services'', srv_name = ''web'',
      srv_auth_ip = ''10.0.0.1'', srv_non_auth_ips = [''10.0.0.2'', ''10.0.0.3''],
      local_check = ''true''\<rparr>"

definition env_ex :: env where
  "env_ex =
     \<lparr>probe_pid = 4242, probe = Exited 0, created = Returns ''/services/web/10.0.0.1'',
      listed = Returns [''10.0.0.2'']\<rparr>"

text \<open>A history before the first healthy iteration: a child-watch notification and an
  iteration whose probe times out.\<close>

definition evs_ex :: "event list" where
  "evs_ex = [ChildrenWatch [], Iteration (env_ex\<lparr>probe := TimedOut\<rparr>)]"

section \<open>Properties\<close>

lemma str_int_200: "str_int 200 = ''200''"
  by (simp add: str_int_def str_nat.simps digit_char_def)

lemma str_int_100: "str_int 100 = ''100''"
  by (simp add: str_int_def str_nat.simps digit_char_def)

lemma route_kw_complete: "\<not> mandatory_missing (route_kw p d m)"
  by (simp add: mandatory_missing_def route_kw_def)

lemma route_kw_prefix: "route_kw p d m ''prefix'' = Some p"
  by (simp add: route_kw_def)

lemma route_kw_metric: "route_kw p d m ''metric'' = Some m"
  by (simp add: route_kw_def)

lemma refresh_loop_eq:
  "refresh_loop ips children t =
     (Inr (t\<lparr>announce := announce t @ map route200 (filter (\<lambda>ip. ip \<notin> set children) ips)\<rparr>),
      concat (map (refresh_effects children) ips))"
  by (induction ips arbitrary: t)
     (simp_all add: add_route_def withdraw_route_def route_kw_complete route_kw_prefix
        route_kw_metric route200_def refresh_effects_def withdraw_line_def str_int_200)

lemma advertise_loop_complete:
  "\<forall>r \<in> set rs. r ''prefix'' \<noteq> None \<and> r ''metric'' \<noteq> None \<Longrightarrow>
   advertise_loop rs =
     (Inr (), map (\<lambda>r. Print (announce_line (the (r ''prefix'')) (the (r ''metric'')))) rs)"
  by (induction rs) auto

lemma refresh_children_Returns:
  "refresh_children c (Returns children) rt =
     (Inr (), rt\<lparr>bgp_table := \<lparr>announce = reconciled c children\<rparr>, refresh := False\<rparr>,
      [Log INFO ''refreshing children & routes'', ZkGetChildren (service_dir c)]
      @ concat (map (refresh_effects children) (srv_non_auth_ips c))
      @ [Log DEBUG (''adding BGP route: '' @ srv_auth_ip c)])"
  by (simp add: refresh_children_def refresh_loop_eq add_route_def route_kw_complete
        route_kw_prefix set_bgp_table_def BGPTable_init_def reconciled_def route100_def)

lemma advertise_routes_reconciled:
  "advertise_routes (BGPSpeaker_init \<lparr>announce = reconciled c children\<rparr>) =
     (Inr (), Log INFO ''advertising routes'' # map Print (announce_lines c children) @ [Flush])"
proof -
  have "\<forall>r \<in> set (reconciled c children). r ''prefix'' \<noteq> None \<and> r ''metric'' \<noteq> None"
    by (auto simp: reconciled_def route200_def route100_def route_kw_prefix route_kw_metric)
  then show ?thesis
    by (simp add: advertise_routes_def BGPSpeaker_init_def get_routes_def advertise_loop_complete
          reconciled_def announce_lines_def route200_def route100_def route_kw_prefix
          route_kw_metric announce_line_def str_int_200 str_int_100 comp_def)
qed

lemma advertise_loop_only_prints: "set (snd (advertise_loop rs)) \<subseteq> range Print"
  by (induction rs) (auto split: option.splits prod.splits)

lemma advertise_routes_no_zk: "ZkGetChildren d \<notin> set (snd (advertise_routes sp))"
  using advertise_loop_only_prints [of "get_routes (table sp)"]
  by (auto simp: advertise_routes_def split: prod.splits sum.splits)

lemma check_no_zk: "ZkGetChildren d \<notin> set (snd (check cmd pid pr))"
  by (simp add: check_def Let_def split: proc_result.splits)

lemma check_healthy: "fst (check cmd pid pr) = Inr True \<longleftrightarrow> pr = Exited 0"
  by (simp add: check_def Let_def split: proc_result.splits)

lemma stdout_append: "stdout (xs @ ys) = stdout xs @ stdout ys"
  by (induction xs rule: stdout.induct) simp_all

lemma stdout_map_Print: "stdout (map Print ls) = ls"
  by (induction ls) simp_all

lemma create_node_soft:
  "\<not> (\<exists>x. cr = Raises x \<and> x \<noteq> SessionExpiredError) \<Longrightarrow>
   create_node c cr rt =
     (Inr (), rt\<lparr>recreate := (cr = Raises SessionExpiredError)\<rparr>,
      [Log INFO ''re-creating my ephemeral node'', ZkCreate (node_path c) True])"
  by (auto simp: create_node_def Let_def split: zk_result.splits)

lemma create_node_fatal:
  "x \<noteq> SessionExpiredError \<Longrightarrow>
   create_node c (Raises x) rt =
     (Inl x, rt\<lparr>recreate := False\<rparr>,
      [Log INFO ''re-creating my ephemeral node'', ZkCreate (node_path c) True])"
  by (simp add: create_node_def Let_def)

lemma check_passes:
  "check (local_check c) pid (Exited 0) = (Inr True, probe_ok_effects c)"
  by (simp add: check_def probe_ok_effects_def)

lemma iteration_stopped: "shouldstop rt \<Longrightarrow> iteration c e rt = (Inr Stopped, rt, [])"
  by (simp add: iteration_def)

lemma iteration_skipped:
  "\<not> shouldstop rt \<Longrightarrow> fst (check (local_check c) (probe_pid e) (probe e)) = Inr False \<Longrightarrow>
   iteration c e rt = (Inr Skipped, rt, snd (check (local_check c) (probe_pid e) (probe e)))"
  by (auto simp: iteration_def split: prod.splits sum.splits)

lemma iteration_unhealthy:
  assumes "\<not> shouldstop rt" and "probe e \<noteq> Exited 0"
  shows "\<exists>res. iteration c e rt = (res, rt, snd (check (local_check c) (probe_pid e) (probe e)))
           \<and> res \<noteq> Inr Advertised"
proof -
  have "fst (check (local_check c) (probe_pid e) (probe e)) \<noteq> Inr True"
    using assms(2) by (simp add: check_healthy)
  then show ?thesis
    using assms(1) by (auto simp: iteration_def split: prod.splits sum.splits)
qed

lemma iteration_create_fatal:
  "\<not> shouldstop rt \<Longrightarrow> probe e = Exited 0 \<Longrightarrow> recreate rt \<Longrightarrow>
   created e = Raises x \<Longrightarrow> x \<noteq> SessionExpiredError \<Longrightarrow>
   iteration c e rt =
     (Inl x, rt\<lparr>recreate := False\<rparr>,
      probe_ok_effects c @ [Log INFO ''re-creating my ephemeral node'', ZkCreate (node_path c) True])"
  by (simp add: iteration_def check_passes create_node_fatal)

lemma create_step:
  "\<not> (recreate rt \<and> create_fatal e) \<Longrightarrow>
   (if recreate rt then create_node c (created e) rt else (Inr (), rt, [])) =
     (Inr (), after_create e rt, create_effects c rt)"
  by (simp add: create_node_soft after_create_def create_effects_def create_fatal_def)

lemma iteration_refresh_raises:
  "\<not> shouldstop rt \<Longrightarrow> probe e = Exited 0 \<Longrightarrow> \<not> (recreate rt \<and> create_fatal e) \<Longrightarrow>
   refresh rt \<Longrightarrow> listed e = Raises x \<Longrightarrow>
   iteration c e rt =
     (Inl x, (after_create e rt)\<lparr>refresh := False\<rparr>,
      probe_ok_effects c @ create_effects c rt
      @ [Log INFO ''refreshing children & routes'', ZkGetChildren (service_dir c)])"
  by (simp add: iteration_def check_passes create_step)
     (simp add: after_create_def refresh_children_def)

lemma iteration_refreshed:
  "\<not> shouldstop rt \<Longrightarrow> probe e = Exited 0 \<Longrightarrow> \<not> (recreate rt \<and> create_fatal e) \<Longrightarrow>
   refresh rt \<Longrightarrow> listed e = Returns children \<Longrightarrow>
   iteration c e rt =
     (Inr Advertised,
      (after_create e rt)\<lparr>bgp_table := \<lparr>announce = reconciled c children\<rparr>, refresh := False\<rparr>,
      probe_ok_effects c @ create_effects c rt @ refresh_trace c children
      @ Log INFO ''advertising routes'' # map Print (announce_lines c children) @ [Flush])"
  by (simp add: iteration_def check_passes create_step)
     (simp add: after_create_def refresh_children_Returns get_bgp_table_def
        advertise_routes_reconciled refresh_trace_def)

lemma iteration_not_refreshed:
  "\<not> shouldstop rt \<Longrightarrow> probe e = Exited 0 \<Longrightarrow> \<not> (recreate rt \<and> create_fatal e) \<Longrightarrow>
   \<not> refresh rt \<Longrightarrow>
   iteration c e rt =
     (case advertise_routes (BGPSpeaker_init (bgp_table rt)) of
        (Inl x, tr) \<Rightarrow> (Inl x, after_create e rt, probe_ok_effects c @ create_effects c rt @ tr)
      | (Inr u, tr) \<Rightarrow>
          (Inr Advertised, after_create e rt, probe_ok_effects c @ create_effects c rt @ tr))"
  by (simp add: iteration_def check_passes create_step)
     (simp add: after_create_def get_bgp_table_def split: prod.splits sum.splits)

lemma iteration_refresh_performed:
  assumes "iteration c e rt = (res, rt', tr)"
      and "ZkGetChildren d \<in> set tr"
  shows "\<not> shouldstop rt \<and> probe e = Exited 0 \<and> refresh rt \<and> \<not> (recreate rt \<and> create_fatal e)"
proof -
  have a: "\<not> shouldstop rt"
    using assms by (auto simp: iteration_stopped)
  have b: "probe e = Exited 0"
  proof (rule ccontr)
    assume "probe e \<noteq> Exited 0"
    then have "tr = snd (check (local_check c) (probe_pid e) (probe e))"
      using assms(1) iteration_unhealthy [OF a, of e c] by auto
    then show False
      using assms(2) check_no_zk by simp
  qed
  have c: "\<not> (recreate rt \<and> create_fatal e)"
  proof
    assume "recreate rt \<and> create_fatal e"
    then obtain x where x: "recreate rt" "created e = Raises x" "x \<noteq> SessionExpiredError"
      by (auto simp: create_fatal_def)
    show False
      using assms iteration_create_fatal [OF a b x, of c]
      by (auto simp: probe_ok_effects_def)
  qed
  have d: "refresh rt"
  proof (rule ccontr)
    assume "\<not> refresh rt"
    then have "set tr \<subseteq> set (probe_ok_effects c) \<union> set (create_effects c rt)
                 \<union> set (snd (advertise_routes (BGPSpeaker_init (bgp_table rt))))"
      using assms(1) a b c by (auto simp: iteration_not_refreshed split: prod.splits sum.splits)
    then show False
      using assms(2) advertise_routes_no_zk [of d "BGPSpeaker_init (bgp_table rt)"]
      by (auto simp: probe_ok_effects_def create_effects_def split: if_splits)
  qed
  show ?thesis using a b c d by simp
qed

lemma stdout_refresh_effects:
  "stdout (concat (map (refresh_effects children) ips)) =
     map (\<lambda>ip. ''withdraw route '' @ ip @ ''/32 next-hop self med 200'')
         (filter (\<lambda>ip. ip \<in> set children) ips)"
  by (induction ips) (simp_all add: refresh_effects_def)

lemma stdout_refresh_trace: "stdout (refresh_trace c children) = withdraw_lines c children"
  by (simp add: refresh_trace_def stdout_append stdout_refresh_effects withdraw_lines_def)

lemma stdout_probe_ok: "stdout (probe_ok_effects c) = []"
  by (simp add: probe_ok_effects_def)

lemma stdout_create_effects: "stdout (create_effects c rt) = []"
  by (simp add: create_effects_def)

lemma announce_lines_of_reconciled:
  "map (\<lambda>r. Print (''announce route '' @ fmt (the (r ''prefix''))
             @ ''/32 next-hop self med '' @ fmt (the (r ''metric''))))
       (reconciled c children) = map Print (announce_lines c children)"
  by (simp add: reconciled_def announce_lines_def route200_def route100_def route_kw_prefix
        route_kw_metric str_int_200 str_int_100 comp_def)

subsection \<open>The table a refresh installs, and its emission\<close>

text \<open>
  Claim C1. Take an iteration of the control loop that performs a refresh (its effects
  contain the \<open>get_children\<close> call on the service directory) and reads the child list
  \<open>children\<close>. Then the probe has passed, the iteration runs to its end, and the table
  installed holds, in the order of \<open>srv_non_auth_ips\<close>, one route with metric 200 for each
  entry that is not among the children, then the route of the auth IP with metric 100 as
  last entry, and nothing else. The effects of the iteration end with the emission: after
  the log record, one line \<open>announce route <prefix>/32 next-hop self med <metric>\<close> per route
  of that table in insertion order, then the flush; nothing but the withdraw lines of the
  refresh is printed before it.
\<close>

theorem refresh_table_and_emission:
  assumes "iteration c e rt = (res, rt', tr)"
      and "ZkGetChildren (service_dir c) \<in> set tr"
      and "listed e = Returns children"
  shows "probe e = Exited 0 \<and> res = Inr Advertised
         \<and> announce (bgp_table rt') =
             map (\<lambda>ip. route_kw (PyStr ip) (PyStr ''1.1.1.1'') (PyInt 200))
                 (filter (\<lambda>ip. ip \<notin> set children) (srv_non_auth_ips c))
             @ [route_kw (PyStr (srv_auth_ip c)) (PyStr ''1.1.1.1'') (PyInt 100)]
         \<and> (\<exists>before. stdout before = withdraw_lines c children \<and>
               tr = before @ Log INFO ''advertising routes''
                    # map (\<lambda>r. Print (''announce route '' @ fmt (the (r ''prefix''))
                               @ ''/32 next-hop self med '' @ fmt (the (r ''metric''))))
                          (announce (bgp_table rt'))
                    @ [Flush])
         \<and> stdout tr = withdraw_lines c children
             @ map (\<lambda>ip. ''announce route '' @ ip @ ''/32 next-hop self med 200'')
                   (filter (\<lambda>ip. ip \<notin> set children) (srv_non_auth_ips c))
             @ [''announce route '' @ srv_auth_ip c @ ''/32 next-hop self med 100'']"
proof -
  have h: "\<not> shouldstop rt" "probe e = Exited 0" "refresh rt" "\<not> (recreate rt \<and> create_fatal e)"
    using iteration_refresh_performed [OF assms(1) assms(2)] by simp_all
  define before where "before = probe_ok_effects c @ create_effects c rt @ refresh_trace c children"
  have res: "res = Inr Advertised"
    and rt': "rt' = (after_create e rt)\<lparr>bgp_table := \<lparr>announce = reconciled c children\<rparr>,
                                          refresh := False\<rparr>"
    and tr: "tr = before
                  @ Log INFO ''advertising routes'' # map Print (announce_lines c children) @ [Flush]"
    using assms(1) iteration_refreshed [OF h(1) h(2) h(4) h(3) assms(3), of c]
    by (simp_all add: before_def)
  have tbl: "announce (bgp_table rt') = reconciled c children"
    by (simp add: rt')
  have pre: "stdout before = withdraw_lines c children"
    by (simp add: before_def stdout_append stdout_probe_ok stdout_create_effects
          stdout_refresh_trace)
  have out: "stdout tr = withdraw_lines c children @ announce_lines c children"
    by (simp add: tr stdout_append pre stdout_map_Print)
  have lines: "map (\<lambda>r. Print (''announce route '' @ fmt (the (r ''prefix''))
                          @ ''/32 next-hop self med '' @ fmt (the (r ''metric''))))
                   (announce (bgp_table rt')) = map Print (announce_lines c children)"
    by (simp only: tbl announce_lines_of_reconciled)
  have ex: "\<exists>b. stdout b = withdraw_lines c children \<and>
             tr = b @ Log INFO ''advertising routes''
                  # map (\<lambda>r. Print (''announce route '' @ fmt (the (r ''prefix''))
                             @ ''/32 next-hop self med '' @ fmt (the (r ''metric''))))
                        (announce (bgp_table rt'))
                  @ [Flush]"
  proof (intro exI conjI)
    show "stdout before = withdraw_lines c children" by (rule pre)
    show "tr = before @ Log INFO ''advertising routes''
                  # map (\<lambda>r. Print (''announce route '' @ fmt (the (r ''prefix''))
                             @ ''/32 next-hop self med '' @ fmt (the (r ''metric''))))
                        (announce (bgp_table rt'))
                  @ [Flush]"
      unfolding lines by (rule tr)
  qed
  have tbl': "announce (bgp_table rt') =
             map (\<lambda>ip. route_kw (PyStr ip) (PyStr ''1.1.1.1'') (PyInt 200))
                 (filter (\<lambda>ip. ip \<notin> set children) (srv_non_auth_ips c))
             @ [route_kw (PyStr (srv_auth_ip c)) (PyStr ''1.1.1.1'') (PyInt 100)]"
    unfolding tbl reconciled_def route200_def route100_def by (rule refl)
  have out': "stdout tr = withdraw_lines c children
             @ map (\<lambda>ip. ''announce route '' @ ip @ ''/32 next-hop self med 200'')
                   (filter (\<lambda>ip. ip \<notin> set children) (srv_non_auth_ips c))
             @ [''announce route '' @ srv_auth_ip c @ ''/32 next-hop self med 100'']"
    unfolding out announce_lines_def by (rule refl)
  show ?thesis
    by (intro conjI) (rule h(2) res tbl' ex out')+
qed

theorem refresh_table_and_emission_witness:
  "ZkGetChildren (service_dir conf_ex) \<in> set (snd (snd (iteration conf_ex env_ex EZKRuntime_init)))
   \<and> listed env_ex = Returns [''10.0.0.2'']
   \<and> announce (bgp_table (fst (snd (iteration conf_ex env_ex EZKRuntime_init)))) =
       [route_kw (PyStr ''10.0.0.3'') (PyStr ''1.1.1.1'') (PyInt 200),
        route_kw (PyStr ''10.0.0.1'') (PyStr ''1.1.1.1'') (PyInt 100)]
   \<and> stdout (snd (snd (iteration conf_ex env_ex EZKRuntime_init))) =
       [''withdraw route 10.0.0.2/32 next-hop self med 200'',
        ''announce route 10.0.0.3/32 next-hop self med 200'',
        ''announce route 10.0.0.1/32 next-hop self med 100'']"
proof -
  obtain res rt' tr where it: "iteration conf_ex env_ex EZKRuntime_init = (res, rt', tr)"
    by (cases "iteration conf_ex env_ex EZKRuntime_init") auto
  have l: "listed env_ex = Returns [''10.0.0.2'']"
    by (simp add: env_ex_def)
  have "iteration conf_ex env_ex EZKRuntime_init =
          (Inr Advertised,
           (after_create env_ex EZKRuntime_init)
             \<lparr>bgp_table := \<lparr>announce = reconciled conf_ex [''10.0.0.2'']\<rparr>, refresh := False\<rparr>,
           probe_ok_effects conf_ex @ create_effects conf_ex EZKRuntime_init
           @ refresh_trace conf_ex [''10.0.0.2'']
           @ Log INFO ''advertising routes'' # map Print (announce_lines conf_ex [''10.0.0.2''])
           @ [Flush])"
    by (rule iteration_refreshed) (simp_all add: EZKRuntime_init_def env_ex_def create_fatal_def)
  then have g: "ZkGetChildren (service_dir conf_ex) \<in> set tr"
    using it by (simp add: refresh_trace_def)
  have c: "srv_non_auth_ips conf_ex = [''10.0.0.2'', ''10.0.0.3'']"
    "srv_auth_ip conf_ex = ''10.0.0.1''"
    by (simp_all add: conf_ex_def)
  have p: "fst (snd (iteration conf_ex env_ex EZKRuntime_init)) = rt'"
    "snd (snd (iteration conf_ex env_ex EZKRuntime_init)) = tr"
    by (simp_all add: it)
  note inst = refresh_table_and_emission [OF it g l]
  have t: "announce (bgp_table rt') =
       [route_kw (PyStr ''10.0.0.3'') (PyStr ''1.1.1.1'') (PyInt 200),
        route_kw (PyStr ''10.0.0.1'') (PyStr ''1.1.1.1'') (PyInt 100)]"
    using inst [THEN conjunct2, THEN conjunct2, THEN conjunct1] by (simp add: c)
  have out: "stdout tr =
       [''withdraw route 10.0.0.2/32 next-hop self med 200'',
        ''announce route 10.0.0.3/32 next-hop self med 200'',
        ''announce route 10.0.0.1/32 next-hop self med 100'']"
    using inst [THEN conjunct2, THEN conjunct2, THEN conjunct2, THEN conjunct2]
    by (simp add: c withdraw_lines_def)
  show ?thesis
    unfolding p by (intro conjI) (rule g l t out)+
qed

lemma str_int_1: "str_int 1 = ''1''"
  by (simp add: str_int_def str_nat.simps digit_char_def)

subsection \<open>Validation in \<open>withdraw_route\<close>\<close>

text \<open>
  Claim C10. \<open>withdraw_route\<close> checks the same three keys as \<open>add_route\<close>: on a route
  dictionary without \<open>prefix\<close>, \<open>dst\<close> or \<open>metric\<close> both raise the same exception, and
  \<open>withdraw_route\<close> has then performed no effect at all (nothing printed, nothing
  flushed). On a dictionary with the three keys it logs, prints exactly one withdraw line
  and flushes; \<open>add_route\<close> accepts the same dictionary.
\<close>

theorem withdraw_route_validation:
  "(r ''prefix'' = None \<or> r ''dst'' = None \<or> r ''metric'' = None \<longrightarrow>
      withdraw_route sp r =
        (Inl (PyException ''prefix, dst & metric are mandatory in route''), [])
      \<and> add_route r t =
        (Inl (PyException ''prefix, dst & metric are mandatory in route''), []))
   \<and> (\<forall>p d m. r ''prefix'' = Some p \<and> r ''dst'' = Some d \<and> r ''metric'' = Some m \<longrightarrow>
        withdraw_route sp r =
          (Inr (), [Log DEBUG (''removing BGP route: '' @ fmt p),
                    Print (''withdraw route '' @ fmt p @ ''/32 next-hop self med '' @ fmt m),
                    Flush])
        \<and> fst (add_route r t) = Inr (t\<lparr>announce := announce t @ [r]\<rparr>))"
  by (auto simp: withdraw_route_def add_route_def mandatory_missing_def mandatory_msg_def
        withdraw_line_def)

theorem withdraw_route_validation_witness:
  "withdraw_route (BGPSpeaker_init BGPTable_init)
      [''prefix'' \<mapsto> PyStr ''10.0.0.2'', ''metric'' \<mapsto> PyInt 200] =
     (Inl (PyException ''prefix, dst & metric are mandatory in route''), [])
   \<and> withdraw_route (BGPSpeaker_init BGPTable_init)
      [''prefix'' \<mapsto> PyStr ''10.0.0.2'', ''dst'' \<mapsto> PyStr ''1.1.1.1'', ''metric'' \<mapsto> PyInt 200] =
     (Inr (), [Log DEBUG ''removing BGP route: 10.0.0.2'',
               Print ''withdraw route 10.0.0.2/32 next-hop self med 200'', Flush])"
proof -
  let ?bad = "[''prefix'' \<mapsto> PyStr ''10.0.0.2'', ''metric'' \<mapsto> PyInt 200]"
  let ?good = "[''prefix'' \<mapsto> PyStr ''10.0.0.2'', ''dst'' \<mapsto> PyStr ''1.1.1.1'',
                ''metric'' \<mapsto> PyInt 200]"
  have b: "?bad ''prefix'' = None \<or> ?bad ''dst'' = None \<or> ?bad ''metric'' = None"
    by simp
  have g: "?good ''prefix'' = Some (PyStr ''10.0.0.2'') \<and> ?good ''dst'' = Some (PyStr ''1.1.1.1'')
           \<and> ?good ''metric'' = Some (PyInt 200)"
    by simp
  have 1: "withdraw_route (BGPSpeaker_init BGPTable_init) ?bad =
             (Inl (PyException ''prefix, dst & metric are mandatory in route''), [])"
    using withdraw_route_validation [of ?bad "BGPSpeaker_init BGPTable_init" BGPTable_init] b
    by blast
  have 2: "withdraw_route (BGPSpeaker_init BGPTable_init) ?good =
     (Inr (), [Log DEBUG (''removing BGP route: '' @ fmt (PyStr ''10.0.0.2'')),
               Print (''withdraw route '' @ fmt (PyStr ''10.0.0.2'') @ ''/32 next-hop self med ''
                      @ fmt (PyInt 200)), Flush])"
    using withdraw_route_validation [of ?good "BGPSpeaker_init BGPTable_init" BGPTable_init] g
    by blast
  show ?thesis
    using 1 2 by (simp add: str_int_200)
qed

subsection \<open>\<open>create_node\<close>\<close>

text \<open>
  Claim C5. The znode path is \<open>{zk_path_service}/{srv_name}/{srv_auth_ip}\<close>, and
  \<open>create_node\<close> asks for an ephemeral node at exactly that path. The flag \<open>recreate\<close> is
  cleared before the call: when the create returns the flag stays cleared; when it raises
  the session-expired error the flag is set again and \<open>create_node\<close> returns normally;
  any other exception leaves \<open>create_node\<close> as it is, with the flag cleared.
\<close>

theorem create_node_cases:
  "node_path c = zk_path_service c @ ''/'' @ srv_name c @ ''/'' @ srv_auth_ip c
   \<and> create_node c (Returns p) rt =
       (Inr (), rt\<lparr>recreate := False\<rparr>,
        [Log INFO ''re-creating my ephemeral node'', ZkCreate (node_path c) True])
   \<and> create_node c (Raises SessionExpiredError) rt =
       (Inr (), rt\<lparr>recreate := True\<rparr>,
        [Log INFO ''re-creating my ephemeral node'', ZkCreate (node_path c) True])
   \<and> (x \<noteq> SessionExpiredError \<longrightarrow>
        create_node c (Raises x) rt =
          (Inl x, rt\<lparr>recreate := False\<rparr>,
           [Log INFO ''re-creating my ephemeral node'', ZkCreate (node_path c) True]))"
  by (simp add: create_node_def node_path_def)

theorem create_node_cases_witness:
  "ZkError ''NodeExistsError'' \<noteq> SessionExpiredError
   \<and> create_node conf_ex (Raises (ZkError ''NodeExistsError'')) EZKRuntime_init =
       (Inl (ZkError ''NodeExistsError''), EZKRuntime_init\<lparr>recreate := False\<rparr>,
        [Log INFO ''re-creating my ephemeral node'', ZkCreate ''/services/web/10.0.0.1'' True])"
  using create_node_cases [of conf_ex "''/services/web/10.0.0.1''" EZKRuntime_init "ZkError ''NodeExistsError''"]
  by (simp add: conf_ex_def)

lemma withdraw_loop_eq:
  "withdraw_loop sp ips =
     (Inr (), concat (map (\<lambda>ip. [Log DEBUG (''removing BGP route: '' @ ip),
                                 Print (''withdraw route '' @ ip @ ''/32 next-hop self med 200''),
                                 Flush]) ips))"
  by (induction ips)
     (simp_all add: withdraw_route_def route_kw_complete route_kw_prefix route_kw_metric
        withdraw_line_def str_int_200)

lemma stdout_withdraw_all:
  "stdout (concat (map (\<lambda>ip. [Log l (f ip), Print (g ip), Flush]) ips)) = map g ips"
  by (induction ips) simp_all

subsection \<open>The SUSPENDED transition\<close>

text \<open>
  Claim C3. On a transition to SUSPENDED the listener returns normally, replaces the route
  table by an empty one, and prints (and flushes) one withdraw line with metric 200 for
  each entry of \<open>srv_non_auth_ips\<close> and then one with metric 100 for the auth IP. The
  flags \<open>recreate\<close>, \<open>shouldstop\<close> and \<open>refresh\<close> keep their values.
\<close>

theorem suspended_withdraws_all:
  "\<exists>tr. zk_transition c SUSPENDED rt = (Inr (), rt\<lparr>bgp_table := \<lparr>announce = []\<rparr>\<rparr>, tr)
     \<and> tr = [Log INFO ''zk state changed to SUSPENDED'',
             Log ERROR ''zk disconnected, flushing routes...'']
            @ concat (map (\<lambda>ip. [Log DEBUG (''removing BGP route: '' @ ip),
                                  Print (''withdraw route '' @ ip @ ''/32 next-hop self med 200''),
                                  Flush]) (srv_non_auth_ips c))
            @ [Log DEBUG (''removing BGP route: '' @ srv_auth_ip c),
               Print (''withdraw route '' @ srv_auth_ip c @ ''/32 next-hop self med 100''),
               Flush]
     \<and> stdout tr =
          map (\<lambda>ip. ''withdraw route '' @ ip @ ''/32 next-hop self med 200'') (srv_non_auth_ips c)
          @ [''withdraw route '' @ srv_auth_ip c @ ''/32 next-hop self med 100'']
     \<and> recreate (rt\<lparr>bgp_table := \<lparr>announce = []\<rparr>\<rparr>) = recreate rt
     \<and> shouldstop (rt\<lparr>bgp_table := \<lparr>announce = []\<rparr>\<rparr>) = shouldstop rt
     \<and> refresh (rt\<lparr>bgp_table := \<lparr>announce = []\<rparr>\<rparr>) = refresh rt"
  by (simp add: zk_transition_def suspended_branch_def withdraw_loop_eq withdraw_route_def
        route_kw_complete route_kw_prefix route_kw_metric withdraw_line_def str_int_100
        set_bgp_table_def BGPTable_init_def stdout_append stdout_withdraw_all)

subsection \<open>The health probe\<close>

text \<open>
  What \<open>check\<close> does once \<open>p\<close> is bound and as long as the alarm is not delivered between
  the return of \<open>p.wait()\<close> and line 38: it returns true exactly when the command exits
  with status 0; when the alarm is delivered during the wait it logs the timeout, sends
  SIGKILL to the process group of the child (the group \<open>os.setpgrp\<close> made, whose id is the
  pid of the child) and returns false; when the command exits with another status it logs
  that status and returns false.
\<close>

lemma check_when_bound:
  "(fst (check command pid pr) = Inr True \<longleftrightarrow> pr = Exited 0)
   \<and> check command pid TimedOut =
       (Inr False,
        [Signal SIGALRM Alarm_signal_handler, SetAlarm 1,
         Popen \<lparr>popen_command = command, popen_shell = True,
                popen_stdout_devnull = True, popen_stderr_devnull = True,
                popen_close_fds = True, popen_setpgrp = True\<rparr>,
         Log ERROR ''local check spent more than 1s to run'', Killpg pid SIGKILL])
   \<and> (rc \<noteq> 0 \<longrightarrow>
        check command pid (Exited rc) =
          (Inr False,
           [Signal SIGALRM Alarm_signal_handler, SetAlarm 1,
            Popen \<lparr>popen_command = command, popen_shell = True,
                   popen_stdout_devnull = True, popen_stderr_devnull = True,
                   popen_close_fds = True, popen_setpgrp = True\<rparr>,
            Signal SIGALRM SIG_IGN,
            Log ERROR (''local check returned: '' @ str_int rc)]))"
  by (simp add: check_def Let_def split: proc_result.splits)

text \<open>
  Claim C2 says that \<open>check\<close> returns true if and only if the command exits with status 0
  within the deadline, and that on a timeout it kills the process group of the command
  and returns false. The code misses a case. The alarm is armed (line 30) before \<open>Popen\<close>
  has returned and \<open>p\<close> is bound (line 33), and the \<open>except\<close> branch reads \<open>p.pid\<close>
  without a guard (line 46). When the second runs out before \<open>p\<close> is bound, here inside
  the \<open>Popen\<close> call for the command \<open>sleep 5\<close>, \<open>check\<close> logs the timeout and then raises
  \<open>UnboundLocalError\<close>: it does not return false, and it sends no signal to any process
  group.
\<close>

theorem check_alarm_before_bound:
  "check ''sleep 5'' 4242 (AlarmBeforeBound True) =
     (Inl (UnboundLocalError ''p''),
      [Signal SIGALRM Alarm_signal_handler, SetAlarm 1,
       Popen \<lparr>popen_command = ''sleep 5'', popen_shell = True,
              popen_stdout_devnull = True, popen_stderr_devnull = True,
              popen_close_fds = True, popen_setpgrp = True\<rparr>,
       Log ERROR ''local check spent more than 1s to run''])
   \<and> fst (check ''sleep 5'' 4242 (AlarmBeforeBound True)) \<noteq> Inr False
   \<and> Killpg 4242 SIGKILL \<notin> set (snd (check ''sleep 5'' 4242 (AlarmBeforeBound True)))"
  by (simp add: check_def)

text \<open>
  The loop does not catch the exception: an iteration whose probe meets this case raises
  it, with the runtime as it was.
\<close>

lemma iteration_alarm_before_bound:
  "\<not> shouldstop rt \<Longrightarrow> probe e = AlarmBeforeBound entered \<Longrightarrow>
   fst (iteration c e rt) = Inl (UnboundLocalError ''p'') \<and> fst (snd (iteration c e rt)) = rt"
  by (simp add: iteration_def check_def)

subsection \<open>An iteration whose probe fails\<close>

text \<open>
  Claim C7. An iteration in which the probe is run and returns false is skipped: the runtime
  (the flags \<open>refresh\<close>, \<open>recreate\<close>, \<open>shouldstop\<close> and the table) is what it was, the only
  effects are those of the probe, nothing is printed or flushed, and no call to
  \<open>zk.create\<close> or \<open>zk.get_children\<close> is made.
\<close>

theorem failed_probe_skips:
  assumes "\<not> shouldstop rt"
      and "fst (check (local_check c) (probe_pid e) (probe e)) = Inr False"
  shows "\<exists>tr. iteration c e rt = (Inr Skipped, rt, tr)
           \<and> tr = snd (check (local_check c) (probe_pid e) (probe e))
           \<and> stdout tr = [] \<and> Flush \<notin> set tr
           \<and> (\<forall>p b. ZkCreate p b \<notin> set tr) \<and> (\<forall>d. ZkGetChildren d \<notin> set tr)"
  using assms
  by (simp add: iteration_skipped)
     (auto simp: check_def Let_def split: proc_result.splits if_splits)

theorem failed_probe_skips_witness:
  "\<not> shouldstop EZKRuntime_init
   \<and> fst (check (local_check conf_ex) (probe_pid (env_ex\<lparr>probe := Exited 1\<rparr>))
             (probe (env_ex\<lparr>probe := Exited 1\<rparr>))) = Inr False
   \<and> iteration conf_ex (env_ex\<lparr>probe := Exited 1\<rparr>) EZKRuntime_init =
       (Inr Skipped, EZKRuntime_init,
        [Signal SIGALRM Alarm_signal_handler, SetAlarm 1,
         Popen \<lparr>popen_command = ''true'', popen_shell = True,
                popen_stdout_devnull = True, popen_stderr_devnull = True,
                popen_close_fds = True, popen_setpgrp = True\<rparr>,
         Signal SIGALRM SIG_IGN, Log ERROR ''local check returned: 1''])"
proof -
  have a: "\<not> shouldstop EZKRuntime_init"
    by (simp add: EZKRuntime_init_def)
  have k: "check (local_check conf_ex) (probe_pid (env_ex\<lparr>probe := Exited 1\<rparr>))
                 (probe (env_ex\<lparr>probe := Exited 1\<rparr>)) =
           (Inr False,
            [Signal SIGALRM Alarm_signal_handler, SetAlarm 1,
             Popen \<lparr>popen_command = ''true'', popen_shell = True,
                popen_stdout_devnull = True, popen_stderr_devnull = True,
                popen_close_fds = True, popen_setpgrp = True\<rparr>,
             Signal SIGALRM SIG_IGN, Log ERROR ''local check returned: 1''])"
    by (simp add: check_def conf_ex_def str_int_1)
  have b: "fst (check (local_check conf_ex) (probe_pid (env_ex\<lparr>probe := Exited 1\<rparr>))
                 (probe (env_ex\<lparr>probe := Exited 1\<rparr>))) = Inr False"
    by (subst k) simp
  have "iteration conf_ex (env_ex\<lparr>probe := Exited 1\<rparr>) EZKRuntime_init =
          (Inr Skipped, EZKRuntime_init,
           snd (check (local_check conf_ex) (probe_pid (env_ex\<lparr>probe := Exited 1\<rparr>))
                  (probe (env_ex\<lparr>probe := Exited 1\<rparr>))))"
    using failed_probe_skips [OF a b] by blast
  then have it: "iteration conf_ex (env_ex\<lparr>probe := Exited 1\<rparr>) EZKRuntime_init =
       (Inr Skipped, EZKRuntime_init,
        [Signal SIGALRM Alarm_signal_handler, SetAlarm 1,
         Popen \<lparr>popen_command = ''true'', popen_shell = True,
                popen_stdout_devnull = True, popen_stderr_devnull = True,
                popen_close_fds = True, popen_setpgrp = True\<rparr>,
         Signal SIGALRM SIG_IGN, Log ERROR ''local check returned: 1''])"
    unfolding k snd_conv .
  show ?thesis
    by (intro conjI) (rule a b it)+
qed

lemma filter_prefix_route200:
  "filter (\<lambda>r. r ''prefix'' = Some (PyStr ip)) (map route200 ips) =
     map route200 (filter (\<lambda>x. x = ip) ips)"
  by (induction ips) (simp_all add: route200_def route_kw_prefix)

lemma refresh_effects_present:
  "ip \<in> set ips \<Longrightarrow> ip \<in> set children \<Longrightarrow>
   Print (''withdraw route '' @ ip @ ''/32 next-hop self med 200'')
     \<in> set (concat (map (refresh_effects children) ips))"
  by (induction ips) (auto simp: refresh_effects_def)

subsection \<open>Shared addresses owned by a peer\<close>

text \<open>
  Claim C4. Let \<open>ip\<close> be an entry of \<open>srv_non_auth_ips\<close> that is among the children read by
  a refresh. Whatever the runtime was before (so whether or not the address was announced
  earlier), the refresh prints the line \<open>withdraw route <ip>/32 next-hop self med 200\<close>,
  and the loop over the shared addresses adds no route with that prefix: every entry of
  the new table but the last has another prefix, and the last is the route of the auth
  IP. So the new table has no route for \<open>ip\<close>, unless \<open>ip\<close> is the auth IP itself. The same
  holds for every iteration of the control loop that performs this refresh: the line is
  among the effects of that iteration, and the table it leaves is this one.
\<close>

theorem present_ip_withdrawn:
  assumes "ip \<in> set (srv_non_auth_ips c)" and "ip \<in> set children"
  shows "\<exists>rt' tr. refresh_children c (Returns children) rt = (Inr (), rt', tr)
           \<and> Print (''withdraw route '' @ ip @ ''/32 next-hop self med 200'') \<in> set tr
           \<and> filter (\<lambda>r. r ''prefix'' = Some (PyStr ip)) (butlast (announce (bgp_table rt'))) = []
           \<and> last (announce (bgp_table rt')) =
               route_kw (PyStr (srv_auth_ip c)) (PyStr ''1.1.1.1'') (PyInt 100)
           \<and> (ip \<noteq> srv_auth_ip c \<longrightarrow>
                filter (\<lambda>r. r ''prefix'' = Some (PyStr ip)) (announce (bgp_table rt')) = [])
           \<and> (\<forall>e rt0 res rt1 tr1.
                 iteration c e rt0 = (res, rt1, tr1) \<and> ZkGetChildren (service_dir c) \<in> set tr1
                 \<and> listed e = Returns children \<longrightarrow>
                 Print (''withdraw route '' @ ip @ ''/32 next-hop self med 200'') \<in> set tr1
                 \<and> announce (bgp_table rt1) = announce (bgp_table rt'))"
proof -
  have w: "Print (''withdraw route '' @ ip @ ''/32 next-hop self med 200'')
             \<in> set (refresh_trace c children)"
    using refresh_effects_present [OF assms] by (simp add: refresh_trace_def)
  have none: "filter (\<lambda>x. x \<notin> set children \<and> x = ip) (srv_non_auth_ips c) = []"
    using assms(2) by (auto simp: filter_empty_conv)
  have f: "filter (\<lambda>r. r ''prefix'' = Some (PyStr ip)) (butlast (reconciled c children)) = []"
    by (simp add: reconciled_def butlast_append filter_prefix_route200 none)
  have l: "last (reconciled c children) =
             route_kw (PyStr (srv_auth_ip c)) (PyStr ''1.1.1.1'') (PyInt 100)"
    by (simp add: reconciled_def route100_def)
  have g: "filter (\<lambda>r. r ''prefix'' = Some (PyStr ip)) (reconciled c children) = []"
    if "ip \<noteq> srv_auth_ip c"
    using that by (simp add: reconciled_def filter_prefix_route200 none route100_def route_kw_prefix)
  have it: "Print (''withdraw route '' @ ip @ ''/32 next-hop self med 200'') \<in> set tr1
            \<and> announce (bgp_table rt1) = reconciled c children"
    if h: "iteration c e rt0 = (res, rt1, tr1)" "ZkGetChildren (service_dir c) \<in> set tr1"
          "listed e = Returns children"
    for e rt0 res rt1 tr1
  proof -
    have p: "\<not> shouldstop rt0" "probe e = Exited 0" "refresh rt0"
            "\<not> (recreate rt0 \<and> create_fatal e)"
      using iteration_refresh_performed [OF h(1) h(2)] by simp_all
    have "tr1 = probe_ok_effects c @ create_effects c rt0 @ refresh_trace c children
                @ Log INFO ''advertising routes'' # map Print (announce_lines c children) @ [Flush]"
      and "rt1 = (after_create e rt0)\<lparr>bgp_table := \<lparr>announce = reconciled c children\<rparr>,
                                        refresh := False\<rparr>"
      using h(1) iteration_refreshed [OF p(1) p(2) p(4) p(3) h(3), of c] by simp_all
    then show ?thesis
      using w by simp
  qed
  show ?thesis
    unfolding refresh_children_Returns refresh_trace_def [symmetric]
    using w f l g it by (simp del: butlast.simps last.simps) blast
qed

theorem present_ip_withdrawn_witness:
  "''10.0.0.2'' \<in> set (srv_non_auth_ips conf_ex) \<and> ''10.0.0.2'' \<in> set [''10.0.0.2'']
   \<and> Print ''withdraw route 10.0.0.2/32 next-hop self med 200''
        \<in> set (snd (snd (refresh_children conf_ex (Returns [''10.0.0.2'']) EZKRuntime_init)))
   \<and> filter (\<lambda>r. r ''prefix'' = Some (PyStr ''10.0.0.2''))
         (announce (bgp_table (fst (snd (refresh_children conf_ex (Returns [''10.0.0.2''])
                                            EZKRuntime_init))))) = []"
proof -
  have a: "''10.0.0.2'' \<in> set (srv_non_auth_ips conf_ex)"
    by (simp add: conf_ex_def)
  have b: "''10.0.0.2'' \<in> set [''10.0.0.2'']"
    by simp
  have d: "''10.0.0.2'' \<noteq> srv_auth_ip conf_ex"
    by (simp add: conf_ex_def)
  obtain rt' tr where
    r: "refresh_children conf_ex (Returns [''10.0.0.2'']) EZKRuntime_init = (Inr (), rt', tr)"
    and p: "Print (''withdraw route '' @ ''10.0.0.2'' @ ''/32 next-hop self med 200'') \<in> set tr"
    and n: "''10.0.0.2'' \<noteq> srv_auth_ip conf_ex \<longrightarrow>
            filter (\<lambda>r. r ''prefix'' = Some (PyStr ''10.0.0.2'')) (announce (bgp_table rt')) = []"
    using present_ip_withdrawn [OF a b, of EZKRuntime_init] by blast
  have p': "Print ''withdraw route 10.0.0.2/32 next-hop self med 200'' \<in> set tr"
    using p by simp
  show ?thesis
    unfolding r using a b d p' n by simp
qed

lemma iteration_healthy_prefix:
  assumes "\<not> shouldstop rt" and "probe e = Exited 0"
  shows "\<exists>res rt' post.
           iteration c e rt = (res, rt', probe_ok_effects c @ create_effects c rt @ post)"
proof (cases "recreate rt \<and> create_fatal e")
  case True
  then obtain x where x: "recreate rt" "created e = Raises x" "x \<noteq> SessionExpiredError"
    by (auto simp: create_fatal_def)
  show ?thesis
    using iteration_create_fatal [OF assms x, of c] x(1) by (simp add: create_effects_def)
next
  case nf: False
  show ?thesis
  proof (cases "refresh rt")
    case True
    show ?thesis
    proof (cases "listed e")
      case (Returns children)
      show ?thesis
        using iteration_refreshed [OF assms nf True Returns, of c] by simp
    next
      case (Raises x)
      show ?thesis
        using iteration_refresh_raises [OF assms nf True Raises, of c] by simp
    qed
  next
    case False
    show ?thesis
      using iteration_not_refreshed [OF assms nf False, of c]
      by (auto split: prod.splits sum.splits)
  qed
qed

subsection \<open>Node creation comes before the refresh\<close>

text \<open>
  Claim C8. In an iteration whose probe passes and that finds \<open>recreate\<close> set, the call
  \<open>zk.create\<close> for the ephemeral node is made before anything is printed and before any
  \<open>zk.get_children\<close>: the effects of the iteration are a prefix without printed line and
  without \<open>get_children\<close>, then the create call, then the rest; when \<open>refresh\<close> is set too
  and the create does not end the loop, the \<open>get_children\<close> call of the refresh is in that
  rest. A transition to LOST sets \<open>recreate\<close>, so this is what the next healthy iteration
  after a LOST event does.
\<close>

theorem recreate_before_refresh:
  assumes "\<not> shouldstop rt" and "probe e = Exited 0" and "recreate rt"
  shows "\<exists>res rt' pre post.
           iteration c e rt = (res, rt', pre @ ZkCreate (node_path c) True # post)
           \<and> stdout pre = [] \<and> (\<forall>d. ZkGetChildren d \<notin> set pre)
           \<and> (refresh rt \<and> \<not> create_fatal e \<longrightarrow> ZkGetChildren (service_dir c) \<in> set post)
           \<and> (\<exists>tr0. zk_transition c LOST rt0 = (Inr (), rt0\<lparr>recreate := True\<rparr>, tr0))"
proof -
  let ?pre = "probe_ok_effects c @ [Log INFO ''re-creating my ephemeral node'']"
  obtain res rt' post where
    it: "iteration c e rt = (res, rt', probe_ok_effects c @ create_effects c rt @ post)"
    using iteration_healthy_prefix [OF assms(1) assms(2)] by blast
  have it': "iteration c e rt = (res, rt', ?pre @ ZkCreate (node_path c) True # post)"
    using it assms(3) by (simp add: create_effects_def)
  have p: "stdout ?pre = []" "\<forall>d. ZkGetChildren d \<notin> set ?pre"
    by (simp_all add: probe_ok_effects_def)
  have g: "ZkGetChildren (service_dir c) \<in> set post" if "refresh rt" "\<not> create_fatal e"
  proof (cases "listed e")
    case (Returns children)
    have "\<not> (recreate rt \<and> create_fatal e)" using that by simp
    from iteration_refreshed [OF assms(1) assms(2) this that(1) Returns, of c] it
    show ?thesis by (simp add: refresh_trace_def)
  next
    case (Raises x)
    have "\<not> (recreate rt \<and> create_fatal e)" using that by simp
    from iteration_refresh_raises [OF assms(1) assms(2) this that(1) Raises, of c] it
    show ?thesis by simp
  qed
  have l: "zk_transition c LOST rt0 =
             (Inr (), rt0\<lparr>recreate := True\<rparr>,
              [Log INFO ''zk state changed to LOST'',
               Log ERROR ''zk lost, have to re-create ephemeral node''])"
    by (simp add: zk_transition_def trigger_recreate_def)
  show ?thesis
    using it' p g l by blast
qed

theorem recreate_before_refresh_witness:
  "\<not> shouldstop EZKRuntime_init \<and> probe env_ex = Exited 0 \<and> recreate EZKRuntime_init
   \<and> (\<exists>res rt' pre post.
         iteration conf_ex env_ex EZKRuntime_init =
           (res, rt', pre @ ZkCreate ''/services/web/10.0.0.1'' True # post)
         \<and> stdout pre = [] \<and> (\<forall>d. ZkGetChildren d \<notin> set pre)
         \<and> ZkGetChildren ''/services/web'' \<in> set post)"
proof -
  have a: "\<not> shouldstop EZKRuntime_init" and c: "recreate EZKRuntime_init"
    and r: "refresh EZKRuntime_init"
    by (simp_all add: EZKRuntime_init_def)
  have b: "probe env_ex = Exited 0" and f: "\<not> create_fatal env_ex"
    by (simp_all add: env_ex_def create_fatal_def)
  have n: "node_path conf_ex = ''/services/web/10.0.0.1''"
    and s: "service_dir conf_ex = ''/services/web''"
    by (simp_all add: node_path_def service_dir_def conf_ex_def)
  show ?thesis
    using recreate_before_refresh [OF a b c, of conf_ex EZKRuntime_init] a b c r f
    unfolding n s by blast
qed

lemma suspended_branch_eq:
  "\<exists>tr. suspended_branch c rt = (Inr (), rt\<lparr>bgp_table := BGPTable_init\<rparr>, tr)"
  by (simp add: suspended_branch_def withdraw_loop_eq withdraw_route_def route_kw_complete
        set_bgp_table_def)

lemma zk_transition_flags:
  "\<exists>rt' tr. zk_transition c st rt = (Inr (), rt', tr)
     \<and> (refresh rt \<longrightarrow> refresh rt') \<and> (recreate rt \<longrightarrow> recreate rt')"
proof -
  obtain tr where "suspended_branch c rt = (Inr (), rt\<lparr>bgp_table := BGPTable_init\<rparr>, tr)"
    using suspended_branch_eq by blast
  then show ?thesis
    by (cases st) (simp_all add: zk_transition_def trigger_refresh_def trigger_recreate_def)
qed

lemma step_flags:
  assumes "probe_fails c ev" and "refresh rt" and "recreate rt"
  shows "\<exists>rt' tr. step c ev rt = (Inr (), rt', tr) \<and> refresh rt' \<and> recreate rt'"
proof (cases ev)
  case (Transition st)
  then show ?thesis
    using zk_transition_flags [of c st rt] assms by auto
next
  case (ChildrenWatch children)
  then show ?thesis
    using assms by (simp add: zk_watch_def trigger_refresh_def)
next
  case (ExitSignal sig)
  then show ?thesis
    using assms by (simp add: exit_signal_handler_def)
next
  case (Iteration e)
  then have p: "fst (check (local_check c) (probe_pid e) (probe e)) = Inr False"
    using assms(1) by simp
  show ?thesis
  proof (cases "shouldstop rt")
    case True
    then show ?thesis using Iteration assms by (simp add: iteration_stopped)
  next
    case False
    then show ?thesis using Iteration assms p by (simp add: iteration_skipped)
  qed
qed

lemma run_flags:
  assumes "\<forall>ev \<in> set evs. probe_fails c ev" and "refresh rt" and "recreate rt"
  shows "\<exists>rt' tr. run c evs rt = (Inr (), rt', tr) \<and> refresh rt' \<and> recreate rt'"
  using assms
proof (induction evs arbitrary: rt)
  case Nil
  then show ?case by simp
next
  case (Cons ev evs)
  obtain rt1 tr1 where s: "step c ev rt = (Inr (), rt1, tr1)" "refresh rt1" "recreate rt1"
    using step_flags [where ev = ev and rt = rt and c = c] Cons.prems by auto
  obtain rt2 tr2 where "run c evs rt1 = (Inr (), rt2, tr2)" "refresh rt2" "recreate rt2"
    using Cons.IH [OF _ s(2) s(3)] Cons.prems(1) by auto
  then show ?case using s(1) by simp
qed

subsection \<open>The first iteration whose probe passes\<close>

text \<open>
  Claim C9. The runtime starts with \<open>refresh\<close> and \<open>recreate\<close> set and \<open>shouldstop\<close> clear.
  Run any sequence of events from there in which no iteration has a passing probe
  (none at all, or session transitions, child-watch notifications, signals and iterations
  whose probe returns false): no event raises, and both flags are still set. If the loop has not
  been told to stop, the next iteration with a passing probe calls \<open>zk.create\<close> for the
  ephemeral node; unless that call raises an exception other than session-expired, which
  ends the loop, it goes on to the refresh: it calls \<open>zk.get_children\<close> and clears
  \<open>refresh\<close>, and when the child list is returned it installs the table of claim C1 and
  prints the withdraw and announce lines of that reconciliation.
\<close>

theorem first_passing_iteration:
  assumes "\<forall>ev \<in> set evs. probe_fails c ev"
      and "run c evs EZKRuntime_init = (out, rt, tr)"
      and "\<not> shouldstop rt" and "probe e = Exited 0"
      and "iteration c e rt = (res, rt', tr')"
  shows "refresh EZKRuntime_init \<and> recreate EZKRuntime_init \<and> \<not> shouldstop EZKRuntime_init
         \<and> out = Inr () \<and> refresh rt \<and> recreate rt
         \<and> ZkCreate (node_path c) True \<in> set tr'
         \<and> ((\<forall>x. created e = Raises x \<longrightarrow> x = SessionExpiredError) \<longrightarrow>
              ZkGetChildren (service_dir c) \<in> set tr' \<and> \<not> refresh rt')
         \<and> (\<forall>children.
               (\<forall>x. created e = Raises x \<longrightarrow> x = SessionExpiredError)
               \<and> listed e = Returns children \<longrightarrow>
               res = Inr Advertised
               \<and> announce (bgp_table rt') =
                   map (\<lambda>ip. route_kw (PyStr ip) (PyStr ''1.1.1.1'') (PyInt 200))
                       (filter (\<lambda>ip. ip \<notin> set children) (srv_non_auth_ips c))
                   @ [route_kw (PyStr (srv_auth_ip c)) (PyStr ''1.1.1.1'') (PyInt 100)]
               \<and> stdout tr' =
                   map (\<lambda>ip. ''withdraw route '' @ ip @ ''/32 next-hop self med 200'')
                       (filter (\<lambda>ip. ip \<in> set children) (srv_non_auth_ips c))
                   @ map (\<lambda>ip. ''announce route '' @ ip @ ''/32 next-hop self med 200'')
                         (filter (\<lambda>ip. ip \<notin> set children) (srv_non_auth_ips c))
                   @ [''announce route '' @ srv_auth_ip c @ ''/32 next-hop self med 100''])"
proof -
  have i: "refresh EZKRuntime_init" "recreate EZKRuntime_init" "\<not> shouldstop EZKRuntime_init"
    by (simp_all add: EZKRuntime_init_def)
  have f: "out = Inr ()" "refresh rt" "recreate rt"
    using run_flags [OF assms(1) i(1) i(2)] assms(2) by auto
  obtain res0 rt0 post where
    "iteration c e rt = (res0, rt0, probe_ok_effects c @ create_effects c rt @ post)"
    using iteration_healthy_prefix [OF assms(3) assms(4)] by blast
  then have cr: "ZkCreate (node_path c) True \<in> set tr'"
    using assms(5) f(3) by (simp add: create_effects_def)
  have nf: "\<not> (recreate rt \<and> create_fatal e)"
    if "\<forall>x. created e = Raises x \<longrightarrow> x = SessionExpiredError"
    using that by (auto simp: create_fatal_def)
  have g: "ZkGetChildren (service_dir c) \<in> set tr' \<and> \<not> refresh rt'"
    if s: "\<forall>x. created e = Raises x \<longrightarrow> x = SessionExpiredError"
  proof (cases "listed e")
    case (Returns children)
    from iteration_refreshed [OF assms(3) assms(4) nf [OF s] f(2) Returns, of c] assms(5)
    show ?thesis by (auto simp: refresh_trace_def)
  next
    case (Raises x)
    from iteration_refresh_raises [OF assms(3) assms(4) nf [OF s] f(2) Raises, of c] assms(5)
    show ?thesis by auto
  qed
  have h: "res = Inr Advertised
           \<and> announce (bgp_table rt') = reconciled c children
           \<and> stdout tr' = withdraw_lines c children @ announce_lines c children"
    if s: "\<forall>x. created e = Raises x \<longrightarrow> x = SessionExpiredError"
      and l: "listed e = Returns children" for children
  proof -
    have "res = Inr Advertised"
      and "rt' = (after_create e rt)\<lparr>bgp_table := \<lparr>announce = reconciled c children\<rparr>,
                                       refresh := False\<rparr>"
      and "tr' = probe_ok_effects c @ create_effects c rt @ refresh_trace c children
                 @ Log INFO ''advertising routes'' # map Print (announce_lines c children) @ [Flush]"
      using iteration_refreshed [OF assms(3) assms(4) nf [OF s] f(2) l, of c] assms(5)
      by simp_all
    then show ?thesis
      by (simp add: stdout_append stdout_probe_ok stdout_create_effects stdout_refresh_trace
            stdout_map_Print)
  qed
  show ?thesis
    using i f cr g h
    unfolding reconciled_def withdraw_lines_def announce_lines_def route200_def route100_def
    by blast
qed

lemma run_evs_ex:
  "run conf_ex evs_ex EZKRuntime_init =
     (Inr (), EZKRuntime_init,
      [Log DEBUG ''zk children are []'', Signal SIGALRM Alarm_signal_handler, SetAlarm 1,
       Popen \<lparr>popen_command = ''true'', popen_shell = True,
              popen_stdout_devnull = True, popen_stderr_devnull = True,
              popen_close_fds = True, popen_setpgrp = True\<rparr>,
       Log ERROR ''local check spent more than 1s to run'', Killpg 4242 SIGKILL])"
  by (simp add: evs_ex_def zk_watch_def str_list_def trigger_refresh_def iteration_def
        check_def EZKRuntime_init_def env_ex_def conf_ex_def)

theorem first_passing_iteration_witness:
  "list_all (probe_fails conf_ex) evs_ex
   \<and> \<not> shouldstop (fst (snd (run conf_ex evs_ex EZKRuntime_init)))
   \<and> probe env_ex = Exited 0
   \<and> ZkCreate ''/services/web/10.0.0.1'' True
        \<in> set (snd (snd (iteration conf_ex env_ex (fst (snd (run conf_ex evs_ex EZKRuntime_init))))))
   \<and> ZkGetChildren ''/services/web''
        \<in> set (snd (snd (iteration conf_ex env_ex (fst (snd (run conf_ex evs_ex EZKRuntime_init))))))
   \<and> stdout (snd (snd (iteration conf_ex env_ex (fst (snd (run conf_ex evs_ex EZKRuntime_init)))))) =
       [''withdraw route 10.0.0.2/32 next-hop self med 200'',
        ''announce route 10.0.0.3/32 next-hop self med 200'',
        ''announce route 10.0.0.1/32 next-hop self med 100'']"
proof -
  have a: "\<forall>ev \<in> set evs_ex. probe_fails conf_ex ev"
    by (simp add: evs_ex_def check_def)
  obtain out rt tr where r: "run conf_ex evs_ex EZKRuntime_init = (out, rt, tr)"
    by (cases "run conf_ex evs_ex EZKRuntime_init") auto
  have rt: "rt = EZKRuntime_init"
    using r by (simp add: run_evs_ex)
  have b: "\<not> shouldstop rt"
    by (simp add: rt EZKRuntime_init_def)
  have p: "probe env_ex = Exited 0"
    by (simp add: env_ex_def)
  obtain res rt' tr' where it: "iteration conf_ex env_ex rt = (res, rt', tr')"
    by (cases "iteration conf_ex env_ex rt") auto
  have s: "\<forall>x. created env_ex = Raises x \<longrightarrow> x = SessionExpiredError"
    by (simp add: env_ex_def)
  have l: "listed env_ex = Returns [''10.0.0.2'']"
    by (simp add: env_ex_def)
  have n: "node_path conf_ex = ''/services/web/10.0.0.1''"
    and d: "service_dir conf_ex = ''/services/web''"
    and ips: "srv_non_auth_ips conf_ex = [''10.0.0.2'', ''10.0.0.3'']"
    and au: "srv_auth_ip conf_ex = ''10.0.0.1''"
    by (simp_all add: node_path_def service_dir_def conf_ex_def)
  note inst = first_passing_iteration [OF a r b p it]
  have 1: "ZkCreate ''/services/web/10.0.0.1'' True \<in> set tr'"
    using inst n by simp
  have 2: "ZkGetChildren ''/services/web'' \<in> set tr'"
    using inst s d by simp
  have 3: "stdout tr' =
       [''withdraw route 10.0.0.2/32 next-hop self med 200'',
        ''announce route 10.0.0.3/32 next-hop self med 200'',
        ''announce route 10.0.0.1/32 next-hop self med 100'']"
    using inst s l by (simp add: ips au)
  have a': "list_all (probe_fails conf_ex) evs_ex"
    by (simp add: evs_ex_def check_def)
  show ?thesis
    using a' b p 1 2 3 by (simp add: r it)
qed

lemma advertise_loop_Inr:
  "advertise_loop rs = (Inr u, tr) \<Longrightarrow>
   tr = map (\<lambda>r. Print (announce_line (the (r ''prefix'')) (the (r ''metric'')))) rs"
  by (induction rs arbitrary: tr) (auto split: option.splits prod.splits)

lemma advertise_routes_Inr:
  "advertise_routes sp = (Inr u, tr) \<Longrightarrow>
   stdout tr = map (\<lambda>r. announce_line (the (r ''prefix'')) (the (r ''metric'')))
                   (announce (table sp))"
proof -
  assume a: "advertise_routes sp = (Inr u, tr)"
  obtain res tr0 where l: "advertise_loop (get_routes (table sp)) = (res, tr0)"
    by (cases "advertise_loop (get_routes (table sp))") auto
  with a have r: "res = Inr u" and t: "tr = Log INFO ''advertising routes'' # tr0 @ [Flush]"
    by (auto simp: advertise_routes_def split: sum.splits)
  have "tr0 = map (\<lambda>r. Print (announce_line (the (r ''prefix'')) (the (r ''metric''))))
                  (get_routes (table sp))"
    using advertise_loop_Inr l r by blast
  then have "stdout tr0 = map (\<lambda>r. announce_line (the (r ''prefix'')) (the (r ''metric'')))
                             (announce (table sp))"
    using stdout_map_Print
      [of "map (\<lambda>r. announce_line (the (r ''prefix'')) (the (r ''metric''))) (announce (table sp))"]
    by (simp add: get_routes_def comp_def)
  then show ?thesis
    by (simp add: t stdout_append)
qed

lemma iteration_advertised:
  assumes "iteration c e rt = (Inr Advertised, rt', tr)"
  shows "\<not> shouldstop rt \<and> probe e = Exited 0 \<and> \<not> (recreate rt \<and> create_fatal e)"
proof -
  have a: "\<not> shouldstop rt"
    using assms by (auto simp: iteration_stopped)
  have b: "probe e = Exited 0"
  proof (rule ccontr)
    assume "probe e \<noteq> Exited 0"
    from iteration_unhealthy [OF a this, of c] assms show False by auto
  qed
  have c: "\<not> (recreate rt \<and> create_fatal e)"
  proof
    assume "recreate rt \<and> create_fatal e"
    then obtain x where x: "recreate rt" "created e = Raises x" "x \<noteq> SessionExpiredError"
      by (auto simp: create_fatal_def)
    show False
      using assms iteration_create_fatal [OF a b x, of c] by simp
  qed
  show ?thesis using a b c by simp
qed

lemma iteration_no_refresh_out:
  assumes "iteration c e rt = (Inr Advertised, rt', tr)" and "\<not> refresh rt"
  shows "bgp_table rt' = bgp_table rt \<and> \<not> refresh rt'
         \<and> stdout tr = map (\<lambda>r. announce_line (the (r ''prefix'')) (the (r ''metric'')))
                            (announce (bgp_table rt))"
proof -
  have h: "\<not> shouldstop rt" "probe e = Exited 0" "\<not> (recreate rt \<and> create_fatal e)"
    using iteration_advertised [OF assms(1)] by simp_all
  obtain res tr0 where ad: "advertise_routes (BGPSpeaker_init (bgp_table rt)) = (res, tr0)"
    by (cases "advertise_routes (BGPSpeaker_init (bgp_table rt))") auto
  from iteration_not_refreshed [OF h assms(2), of c] assms(1) ad
  have r: "res = Inr ()" and rt': "rt' = after_create e rt"
    and t: "tr = probe_ok_effects c @ create_effects c rt @ tr0"
    by (auto split: sum.splits)
  have "stdout tr0 = map (\<lambda>r. announce_line (the (r ''prefix'')) (the (r ''metric'')))
                         (announce (table (BGPSpeaker_init (bgp_table rt))))"
    using advertise_routes_Inr ad r by blast
  then show ?thesis
    using assms(2)
    by (simp add: rt' t after_create_def stdout_append stdout_probe_ok stdout_create_effects
          BGPSpeaker_init_def)
qed

lemma iteration_refresh_out:
  assumes "iteration c e rt = (Inr Advertised, rt', tr)" and "refresh rt"
  shows "\<exists>children. listed e = Returns children
           \<and> bgp_table rt' = \<lparr>announce = reconciled c children\<rparr> \<and> \<not> refresh rt'
           \<and> stdout tr = withdraw_lines c children @ announce_lines c children"
proof -
  have h: "\<not> shouldstop rt" "probe e = Exited 0" "\<not> (recreate rt \<and> create_fatal e)"
    using iteration_advertised [OF assms(1)] by simp_all
  show ?thesis
  proof (cases "listed e")
    case (Raises x)
    from iteration_refresh_raises [OF h assms(2) Raises, of c] assms(1)
    show ?thesis by simp
  next
    case (Returns children)
    from iteration_refreshed [OF h assms(2) Returns, of c] assms(1)
    have "rt' = (after_create e rt)\<lparr>bgp_table := \<lparr>announce = reconciled c children\<rparr>,
                                      refresh := False\<rparr>"
      and "tr = probe_ok_effects c @ create_effects c rt @ refresh_trace c children
                @ Log INFO ''advertising routes'' # map Print (announce_lines c children) @ [Flush]"
      by simp_all
    then show ?thesis
      using Returns
      by (simp add: stdout_append stdout_probe_ok stdout_create_effects stdout_refresh_trace
            stdout_map_Print)
  qed
qed

lemma announce_lines_reconciled_text:
  "map (\<lambda>r. announce_line (the (r ''prefix'')) (the (r ''metric''))) (reconciled c children)
     = announce_lines c children"
  by (simp add: reconciled_def announce_lines_def route200_def route100_def route_kw_prefix
        route_kw_metric announce_line_def str_int_200 str_int_100 comp_def)

lemma iteration_ex_first:
  "iteration conf_ex env_ex EZKRuntime_init =
     (Inr Advertised,
      \<lparr>bgp_table = \<lparr>announce = reconciled conf_ex [''10.0.0.2'']\<rparr>, refresh = False,
        recreate = False, shouldstop = False\<rparr>,
      probe_ok_effects conf_ex @ create_effects conf_ex EZKRuntime_init
      @ refresh_trace conf_ex [''10.0.0.2'']
      @ Log INFO ''advertising routes'' # map Print (announce_lines conf_ex [''10.0.0.2''])
      @ [Flush])"
proof -
  have "iteration conf_ex env_ex EZKRuntime_init =
          (Inr Advertised,
           (after_create env_ex EZKRuntime_init)
             \<lparr>bgp_table := \<lparr>announce = reconciled conf_ex [''10.0.0.2'']\<rparr>, refresh := False\<rparr>,
           probe_ok_effects conf_ex @ create_effects conf_ex EZKRuntime_init
           @ refresh_trace conf_ex [''10.0.0.2'']
           @ Log INFO ''advertising routes'' # map Print (announce_lines conf_ex [''10.0.0.2''])
           @ [Flush])"
    by (rule iteration_refreshed) (simp_all add: EZKRuntime_init_def env_ex_def create_fatal_def)
  moreover have "(after_create env_ex EZKRuntime_init)
             \<lparr>bgp_table := \<lparr>announce = reconciled conf_ex [''10.0.0.2'']\<rparr>, refresh := False\<rparr>
        = \<lparr>bgp_table = \<lparr>announce = reconciled conf_ex [''10.0.0.2'']\<rparr>, refresh = False,
           recreate = False, shouldstop = False\<rparr>"
    by (simp add: after_create_def EZKRuntime_init_def env_ex_def)
  ultimately show ?thesis by simp
qed

lemma iteration_ex_second:
  "iteration conf_ex env_ex
     \<lparr>bgp_table = \<lparr>announce = reconciled conf_ex [''10.0.0.2'']\<rparr>, refresh = False,
       recreate = False, shouldstop = False\<rparr> =
     (Inr Advertised,
      \<lparr>bgp_table = \<lparr>announce = reconciled conf_ex [''10.0.0.2'']\<rparr>, refresh = False,
        recreate = False, shouldstop = False\<rparr>,
      probe_ok_effects conf_ex
      @ Log INFO ''advertising routes'' # map Print (announce_lines conf_ex [''10.0.0.2''])
      @ [Flush])"
proof -
  let ?rt = "\<lparr>bgp_table = \<lparr>announce = reconciled conf_ex [''10.0.0.2'']\<rparr>, refresh = False,
               recreate = False, shouldstop = False\<rparr>"
  have "iteration conf_ex env_ex ?rt =
     (case advertise_routes (BGPSpeaker_init (bgp_table ?rt)) of
        (Inl x, tr) \<Rightarrow> (Inl x, after_create env_ex ?rt,
                         probe_ok_effects conf_ex @ create_effects conf_ex ?rt @ tr)
      | (Inr u, tr) \<Rightarrow> (Inr Advertised, after_create env_ex ?rt,
                         probe_ok_effects conf_ex @ create_effects conf_ex ?rt @ tr))"
    by (rule iteration_not_refreshed) (simp_all add: env_ex_def)
  then show ?thesis
    by (simp add: advertise_routes_reconciled after_create_def create_effects_def)
qed

lemma lines_ex:
  "withdraw_lines conf_ex [''10.0.0.2''] = [''withdraw route 10.0.0.2/32 next-hop self med 200'']"
  "announce_lines conf_ex [''10.0.0.2''] =
     [''announce route 10.0.0.3/32 next-hop self med 200'',
      ''announce route 10.0.0.1/32 next-hop self med 100'']"
  by (simp_all add: withdraw_lines_def announce_lines_def conf_ex_def)

lemma iteration_ex_again:
  "iteration conf_ex env_ex
     \<lparr>bgp_table = \<lparr>announce = reconciled conf_ex [''10.0.0.2'']\<rparr>, refresh = True,
       recreate = False, shouldstop = False\<rparr> =
     (Inr Advertised,
      \<lparr>bgp_table = \<lparr>announce = reconciled conf_ex [''10.0.0.2'']\<rparr>, refresh = False,
        recreate = False, shouldstop = False\<rparr>,
      probe_ok_effects conf_ex @ refresh_trace conf_ex [''10.0.0.2'']
      @ Log INFO ''advertising routes'' # map Print (announce_lines conf_ex [''10.0.0.2''])
      @ [Flush])"
proof -
  let ?rt = "\<lparr>bgp_table = \<lparr>announce = reconciled conf_ex [''10.0.0.2'']\<rparr>, refresh = True,
               recreate = False, shouldstop = False\<rparr>"
  have "iteration conf_ex env_ex ?rt =
          (Inr Advertised,
           (after_create env_ex ?rt)
             \<lparr>bgp_table := \<lparr>announce = reconciled conf_ex [''10.0.0.2'']\<rparr>, refresh := False\<rparr>,
           probe_ok_effects conf_ex @ create_effects conf_ex ?rt
           @ refresh_trace conf_ex [''10.0.0.2'']
           @ Log INFO ''advertising routes'' # map Print (announce_lines conf_ex [''10.0.0.2''])
           @ [Flush])"
    by (rule iteration_refreshed) (simp_all add: env_ex_def)
  then show ?thesis
    by (simp add: after_create_def create_effects_def)
qed

subsection \<open>Two consecutive iterations\<close>

text \<open>
  Claim C6 says that two consecutive iterations with an unchanged child set and a passing
  probe print identical batches of stdout lines. That fails when the first of them
  refreshes and a peer owns a shared address: from the initial runtime, with the child
  list \<open>[10.0.0.2]\<close>, the first iteration prints the withdraw line of the refresh and the
  two announce lines; the second, run from the runtime the first one left and with the
  same environment, finds \<open>refresh\<close> cleared and prints the two announce lines only.
\<close>

theorem consecutive_batches_differ:
  "probe env_ex = Exited 0 \<and> listed env_ex = Returns [''10.0.0.2'']
   \<and> fst (iteration conf_ex env_ex EZKRuntime_init) = Inr Advertised
   \<and> fst (iteration conf_ex env_ex (fst (snd (iteration conf_ex env_ex EZKRuntime_init))))
       = Inr Advertised
   \<and> stdout (snd (snd (iteration conf_ex env_ex EZKRuntime_init))) =
       [''withdraw route 10.0.0.2/32 next-hop self med 200'',
        ''announce route 10.0.0.3/32 next-hop self med 200'',
        ''announce route 10.0.0.1/32 next-hop self med 100'']
   \<and> stdout (snd (snd (iteration conf_ex env_ex
                          (fst (snd (iteration conf_ex env_ex EZKRuntime_init)))))) =
       [''announce route 10.0.0.3/32 next-hop self med 200'',
        ''announce route 10.0.0.1/32 next-hop self med 100'']
   \<and> stdout (snd (snd (iteration conf_ex env_ex EZKRuntime_init))) \<noteq>
       stdout (snd (snd (iteration conf_ex env_ex
                          (fst (snd (iteration conf_ex env_ex EZKRuntime_init))))))"
proof -
  have e: "probe env_ex = Exited 0" "listed env_ex = Returns [''10.0.0.2'']"
    by (simp_all add: env_ex_def)
  have 1: "stdout (snd (snd (iteration conf_ex env_ex EZKRuntime_init))) =
             withdraw_lines conf_ex [''10.0.0.2''] @ announce_lines conf_ex [''10.0.0.2'']"
    by (simp add: iteration_ex_first stdout_append stdout_probe_ok stdout_create_effects
          stdout_refresh_trace stdout_map_Print)
  have 2: "stdout (snd (snd (iteration conf_ex env_ex
                          (fst (snd (iteration conf_ex env_ex EZKRuntime_init)))))) =
             announce_lines conf_ex [''10.0.0.2'']"
    by (simp add: iteration_ex_first iteration_ex_second stdout_append stdout_probe_ok
          stdout_map_Print)
  show ?thesis
    unfolding 1 2 lines_ex
    by (simp add: e iteration_ex_first iteration_ex_second)
qed

text \<open>
  Claim C6 as amended. Take two consecutive iterations that both run to their end (so
  both probes pass). The second starts from the runtime the first one left, or from that
  runtime with flags raised in between, the table being the same; if it finds \<open>refresh\<close>
  set, the first one had found it set too and both read the same child list. Then the
  second leaves the table the first one left, and both print the same announce lines,
  one per route of that table. Before them, each iteration prints the withdraw lines of
  its own refresh, if it refreshes: one for each entry of \<open>srv_non_auth_ips\<close> among the
  children. So the two batches are identical when both iterations refresh or neither
  does, and differ by those withdraw lines when only the first one refreshes.
\<close>

theorem consecutive_iterations_announce:
  assumes "iteration c e1 rt = (Inr Advertised, rt1, tr1)"
      and "bgp_table rt1' = bgp_table rt1"
      and "refresh rt1' \<longrightarrow> refresh rt \<and> listed e2 = listed e1"
      and "iteration c e2 rt1' = (Inr Advertised, rt2, tr2)"
  shows "probe e1 = Exited 0 \<and> probe e2 = Exited 0
         \<and> bgp_table rt2 = bgp_table rt1
         \<and> stdout tr1 =
             refresh_withdraws c e1 rt
             @ map (\<lambda>r. ''announce route '' @ fmt (the (r ''prefix''))
                         @ ''/32 next-hop self med '' @ fmt (the (r ''metric'')))
                   (announce (bgp_table rt1))
         \<and> stdout tr2 =
             refresh_withdraws c e2 rt1'
             @ map (\<lambda>r. ''announce route '' @ fmt (the (r ''prefix''))
                         @ ''/32 next-hop self med '' @ fmt (the (r ''metric'')))
                   (announce (bgp_table rt1))
         \<and> ((refresh rt1' \<longleftrightarrow> refresh rt) \<longrightarrow> stdout tr2 = stdout tr1)"
proof -
  let ?A = "map (\<lambda>r. announce_line (the (r ''prefix'')) (the (r ''metric'')))
                (announce (bgp_table rt1))"
  have p: "probe e1 = Exited 0" "probe e2 = Exited 0"
    using iteration_advertised [OF assms(1)] iteration_advertised [OF assms(4)] by simp_all
  have o1: "stdout tr1 = refresh_withdraws c e1 rt @ ?A"
  proof (cases "refresh rt")
    case True
    obtain children where "listed e1 = Returns children"
      "bgp_table rt1 = \<lparr>announce = reconciled c children\<rparr>"
      "stdout tr1 = withdraw_lines c children @ announce_lines c children"
      using iteration_refresh_out [OF assms(1) True] by blast
    then show ?thesis
      using True
      by (simp add: refresh_withdraws_def withdraw_lines_def announce_lines_reconciled_text)
  next
    case False
    then show ?thesis
      using iteration_no_refresh_out [OF assms(1) False]
      by (simp add: refresh_withdraws_def split: zk_result.splits)
  qed
  have second: "bgp_table rt2 = bgp_table rt1 \<and> stdout tr2 = refresh_withdraws c e2 rt1' @ ?A"
  proof (cases "refresh rt1'")
    case True
    then have r: "refresh rt" and l: "listed e2 = listed e1"
      using assms(3) by simp_all
    obtain children where c1: "listed e1 = Returns children"
      "bgp_table rt1 = \<lparr>announce = reconciled c children\<rparr>"
      using iteration_refresh_out [OF assms(1) r] by blast
    obtain children' where c2: "listed e2 = Returns children'"
      "bgp_table rt2 = \<lparr>announce = reconciled c children'\<rparr>"
      "stdout tr2 = withdraw_lines c children' @ announce_lines c children'"
      using iteration_refresh_out [OF assms(4) True] by blast
    have "children' = children"
      using c1(1) c2(1) l by simp
    then show ?thesis
      using c1 c2 True
      by (simp add: refresh_withdraws_def withdraw_lines_def announce_lines_reconciled_text)
  next
    case False
    then show ?thesis
      using iteration_no_refresh_out [OF assms(4) False] assms(2)
      by (simp add: refresh_withdraws_def split: zk_result.splits)
  qed
  have same: "stdout tr2 = stdout tr1" if "refresh rt1' \<longleftrightarrow> refresh rt"
  proof (cases "refresh rt1'")
    case True
    then have "refresh rt" "listed e2 = listed e1"
      using assms(3) by simp_all
    then have "refresh_withdraws c e2 rt1' = refresh_withdraws c e1 rt"
      using True by (simp add: refresh_withdraws_def split: zk_result.splits)
    then show ?thesis using o1 second by simp
  next
    case False
    then have "\<not> refresh rt" using that by simp
    then have "refresh_withdraws c e2 rt1' = refresh_withdraws c e1 rt"
      using False by (simp add: refresh_withdraws_def split: zk_result.splits)
    then show ?thesis using o1 second by simp
  qed
  have A: "?A = map (\<lambda>r. ''announce route '' @ fmt (the (r ''prefix''))
                         @ ''/32 next-hop self med '' @ fmt (the (r ''metric'')))
                   (announce (bgp_table rt1))"
    unfolding announce_line_def by (rule refl)
  show ?thesis
    using p o1 second same unfolding A by blast
qed

theorem consecutive_iterations_announce_witness:
  "fst (iteration conf_ex env_ex EZKRuntime_init) = Inr Advertised
   \<and> fst (iteration conf_ex env_ex (fst (snd (iteration conf_ex env_ex EZKRuntime_init))))
       = Inr Advertised
   \<and> \<not> refresh (fst (snd (iteration conf_ex env_ex EZKRuntime_init)))
   \<and> bgp_table (fst (snd (iteration conf_ex env_ex
                             (fst (snd (iteration conf_ex env_ex EZKRuntime_init))))))
       = bgp_table (fst (snd (iteration conf_ex env_ex EZKRuntime_init)))
   \<and> stdout (snd (snd (iteration conf_ex env_ex EZKRuntime_init))) =
       [''withdraw route 10.0.0.2/32 next-hop self med 200'',
        ''announce route 10.0.0.3/32 next-hop self med 200'',
        ''announce route 10.0.0.1/32 next-hop self med 100'']
   \<and> stdout (snd (snd (iteration conf_ex env_ex
                          (fst (snd (iteration conf_ex env_ex EZKRuntime_init)))))) =
       [''announce route 10.0.0.3/32 next-hop self med 200'',
        ''announce route 10.0.0.1/32 next-hop self med 100'']
   \<and> stdout (snd (snd (iteration conf_ex env_ex
                          ((fst (snd (iteration conf_ex env_ex EZKRuntime_init)))
                             \<lparr>refresh := True\<rparr>)))) =
       stdout (snd (snd (iteration conf_ex env_ex EZKRuntime_init)))"
proof -
  let ?rt1 = "\<lparr>bgp_table = \<lparr>announce = reconciled conf_ex [''10.0.0.2'']\<rparr>, refresh = False,
                recreate = False, shouldstop = False\<rparr>"
  let ?tr1 = "probe_ok_effects conf_ex @ create_effects conf_ex EZKRuntime_init
      @ refresh_trace conf_ex [''10.0.0.2'']
      @ Log INFO ''advertising routes'' # map Print (announce_lines conf_ex [''10.0.0.2''])
      @ [Flush]"
  let ?tr2 = "probe_ok_effects conf_ex
      @ Log INFO ''advertising routes'' # map Print (announce_lines conf_ex [''10.0.0.2''])
      @ [Flush]"
  have t: "bgp_table ?rt1 = bgp_table ?rt1"
    by (rule refl)
  have f: "refresh ?rt1 \<longrightarrow> refresh EZKRuntime_init \<and> listed env_ex = listed env_ex"
    by simp
  note inst = consecutive_iterations_announce [OF iteration_ex_first t f iteration_ex_second]
  have w1: "refresh_withdraws conf_ex env_ex EZKRuntime_init =
              [''withdraw route 10.0.0.2/32 next-hop self med 200'']"
    and w2: "refresh_withdraws conf_ex env_ex ?rt1 = []"
    by (simp_all add: refresh_withdraws_def env_ex_def EZKRuntime_init_def conf_ex_def)
  have a: "map (\<lambda>r. ''announce route '' @ fmt (the (r ''prefix''))
                     @ ''/32 next-hop self med '' @ fmt (the (r ''metric'')))
               (announce (bgp_table ?rt1)) =
           [''announce route 10.0.0.3/32 next-hop self med 200'',
            ''announce route 10.0.0.1/32 next-hop self med 100'']"
    by (simp add: reconciled_def conf_ex_def route200_def route100_def route_kw_prefix
          route_kw_metric str_int_200 str_int_100)
  have o1: "stdout ?tr1 =
       [''withdraw route 10.0.0.2/32 next-hop self med 200'',
        ''announce route 10.0.0.3/32 next-hop self med 200'',
        ''announce route 10.0.0.1/32 next-hop self med 100'']"
    using inst [THEN conjunct2, THEN conjunct2, THEN conjunct2, THEN conjunct1]
    unfolding w1 a by simp
  have o2: "stdout ?tr2 =
       [''announce route 10.0.0.3/32 next-hop self med 200'',
        ''announce route 10.0.0.1/32 next-hop self med 100'']"
    using inst [THEN conjunct2, THEN conjunct2, THEN conjunct2, THEN conjunct2, THEN conjunct1]
    unfolding w2 a by simp
  let ?rt1' = "\<lparr>bgp_table = \<lparr>announce = reconciled conf_ex [''10.0.0.2'']\<rparr>, refresh = True,
                 recreate = False, shouldstop = False\<rparr>"
  let ?tr3 = "probe_ok_effects conf_ex @ refresh_trace conf_ex [''10.0.0.2'']
      @ Log INFO ''advertising routes'' # map Print (announce_lines conf_ex [''10.0.0.2''])
      @ [Flush]"
  have t': "bgp_table ?rt1' = bgp_table ?rt1"
    by simp
  have f': "refresh ?rt1' \<longrightarrow> refresh EZKRuntime_init \<and> listed env_ex = listed env_ex"
    by (simp add: EZKRuntime_init_def)
  have b: "refresh ?rt1' \<longleftrightarrow> refresh EZKRuntime_init"
    by (simp add: EZKRuntime_init_def)
  note again = consecutive_iterations_announce [OF iteration_ex_first t' f' iteration_ex_again]
  have o3: "stdout ?tr3 = stdout ?tr1"
    using again b by blast
  have u: "?rt1\<lparr>refresh := True\<rparr> = ?rt1'"
    by simp
  show ?thesis
    unfolding iteration_ex_first iteration_ex_second fst_conv snd_conv u iteration_ex_again
    using o1 o2 o3 by simp
qed

end
